theory Spec2Isabelle
  imports Complex_Main "HOL-Library.Word"
begin

unbundle bit_operations_syntax

section \<open>The hardware seen by the two ST7789 scripts\<close>

text \<open>
  Both \<^verbatim>\<open>spi/display_st7789_v4.py\<close> and \<^verbatim>\<open>spi/webm_video_st7789.py\<close> talk to the
  panel through library calls: level writes on the DC and RST lines (gpiod
  \<^verbatim>\<open>set_value\<close>), byte transfers on the bus (spidev \<^verbatim>\<open>writebytes\<close>, \<^verbatim>\<open>writebytes2\<close>),
  \<^verbatim>\<open>time.sleep\<close>, and the calls that open and close the handles and control the ffmpeg
  process. The model records every such call, in program order, in a trace.

  A transfer carries the label \<open>Cmd\<close> or \<open>Dat\<close>: it records which operation of the source
  issued the transfer (\<^verbatim>\<open>command\<close>/\<^verbatim>\<open>write_command\<close> or \<^verbatim>\<open>data\<close>/\<^verbatim>\<open>write_data\<close>).
  Level \<open>True\<close> is gpiod's \<^verbatim>\<open>Value.ACTIVE\<close> (line high), \<open>False\<close> is \<^verbatim>\<open>Value.INACTIVE\<close>.
  Durations are seconds; the float literals of the source (\<^verbatim>\<open>0.050\<close>, \<^verbatim>\<open>0.12\<close>) are read as
  the rationals they denote. Console output is not part of the model.
\<close>

datatype kind = Cmd | Dat

datatype call =
    SetDC bool
  | SetRST bool
  | SpiWrite kind "int list"
  | SpiClose
  | SpiOpen
  | SpiSetSpeed
  | SpiSetMode
  | GpioRequest
  | GpioRelease
  | Popen
  | Terminate
  | Wait
  | Kill
  | CloseStdout
  | CloseStderr

datatype event = Done call | Failed call | Sleep rat

datatype exn = OSError | ValueError | AttributeError | TimeoutExpired | KeyboardInterrupt

text \<open>
  A library call can raise. \<open>faults\<close> scripts the outcomes of the calls still to come: the
  head is \<open>Some e\<close> when the next call raises \<open>e\<close> and \<open>None\<close> when it returns; an exhausted
  script means that every further call returns. A \<^verbatim>\<open>KeyboardInterrupt\<close> in the script is an
  interrupt that arrives during that call. A call that raised is logged as \<open>Failed\<close>.
\<close>

record world =
  trace :: "event list"
  faults :: "exn option list"

type_synonym 's proc = "'s \<Rightarrow> exn option \<times> 's"

definition hw_call :: "call \<Rightarrow> ('a world_scheme) proc" where
  "hw_call c w =
     (case faults w of
        [] \<Rightarrow> (None, w\<lparr>trace := trace w @ [Done c]\<rparr>)
      | None # fs \<Rightarrow> (None, w\<lparr>trace := trace w @ [Done c], faults := fs\<rparr>)
      | Some e # fs \<Rightarrow> (Some e, w\<lparr>trace := trace w @ [Failed c], faults := fs\<rparr>))"

definition sleep :: "rat \<Rightarrow> ('a world_scheme) proc" where
  "sleep d w = (None, w\<lparr>trace := trace w @ [Sleep d]\<rparr>)"

definition raise :: "exn \<Rightarrow> 's proc" where
  "raise e w = (Some e, w)"

definition pass :: "'s proc" where
  "pass w = (None, w)"

text \<open>Statements in sequence: the first exception ends the sequence.\<close>

fun seq :: "'s proc list \<Rightarrow> 's proc" where
  "seq [] w = (None, w)"
| "seq (p # ps) w = (case p w of (None, w') \<Rightarrow> seq ps w' | (Some e, w') \<Rightarrow> (Some e, w'))"

text \<open>
  \<^verbatim>\<open>try: ... except Exception as e: print(...)\<close>: every exception but
  \<^verbatim>\<open>KeyboardInterrupt\<close> (a \<^verbatim>\<open>BaseException\<close>) is swallowed.
\<close>

definition except_Exception :: "'s proc \<Rightarrow> 's proc" where
  "except_Exception p w =
     (case p w of
        (Some KeyboardInterrupt, w') \<Rightarrow> (Some KeyboardInterrupt, w')
      | (_, w') \<Rightarrow> (None, w'))"

text \<open>The argument of \<^verbatim>\<open>data\<close> / \<^verbatim>\<open>write_data\<close>, by its Python type.\<close>

datatype data_val =
    DInt int
  | DBytes "8 word list"
  | DList "int list"
  | DSeq "int list"

section \<open>Colour conversion\<close>

type_synonym rgb888 = "8 word \<times> 8 word \<times> 8 word"

text \<open>
  \<^verbatim>\<open>display_image\<close>: the pixel array is cast to \<^verbatim>\<open>uint16\<close>, then
  \<^verbatim>\<open>r = (p[:,:,0] & 0xF8) << 8; g = (p[:,:,1] & 0xFC) << 3; b = (p[:,:,2] & 0xF8) >> 3\<close>,
  all in 16 bits.
\<close>

definition rgb565_v4 :: "rgb888 \<Rightarrow> 16 word" where
  "rgb565_v4 p = (case p of (r8, g8, b8) \<Rightarrow>
     let r = push_bit 8 ((ucast r8 :: 16 word) AND 0xF8);
         g = push_bit 3 ((ucast g8 :: 16 word) AND 0xFC);
         b = drop_bit 3 ((ucast b8 :: 16 word) AND 0xF8)
     in r OR g OR b)"

text \<open>
  \<^verbatim>\<open>display_frame_rgb565\<close>: each channel is cast to \<^verbatim>\<open>uint16\<close> and shifted right
  first, then \<^verbatim>\<open>(r << 11) | (g << 5) | b\<close>.
\<close>

definition rgb565_webm :: "rgb888 \<Rightarrow> 16 word" where
  "rgb565_webm p = (case p of (r8, g8, b8) \<Rightarrow>
     let r = drop_bit 3 (ucast r8 :: 16 word);
         g = drop_bit 2 (ucast g8 :: 16 word);
         b = drop_bit 3 (ucast b8 :: 16 word)
     in push_bit 11 r OR push_bit 5 g OR b)"

text \<open>
  Byte order. The board (Rock 5C, aarch64) is little-endian, so numpy's native
  \<^verbatim>\<open>tobytes()\<close> of a \<^verbatim>\<open>uint16\<close> gives the low byte first; \<^verbatim>\<open>byteswap()\<close> exchanges the
  two bytes of each element; \<^verbatim>\<open>astype('>u2').tobytes()\<close> gives the high byte first on
  every host.
\<close>

definition byteswap :: "16 word \<Rightarrow> 16 word" where
  "byteswap w = push_bit 8 w OR drop_bit 8 w"

definition tobytes_native :: "16 word \<Rightarrow> 8 word list" where
  "tobytes_native w = [ucast w, ucast (drop_bit 8 w)]"

definition tobytes_be :: "16 word \<Rightarrow> 8 word list" where
  "tobytes_be w = [ucast (drop_bit 8 w), ucast w]"

text \<open>The pixel array is a flat, row-major list of channel triples.\<close>

definition pixel_bytes_v4 :: "rgb888 list \<Rightarrow> 8 word list" where
  "pixel_bytes_v4 pixels = concat (map (\<lambda>p. tobytes_native (byteswap (rgb565_v4 p))) pixels)"

definition pixel_bytes_webm :: "rgb888 list \<Rightarrow> 8 word list" where
  "pixel_bytes_webm pixels = concat (map (\<lambda>p. tobytes_be (rgb565_webm p)) pixels)"

section \<open>\<^verbatim>\<open>display_st7789_v4.py\<close>: the class \<^verbatim>\<open>ST7789\<close>\<close>

definition ST7789_SWRESET :: int where "ST7789_SWRESET = 0x01"
definition ST7789_SLPOUT :: int where "ST7789_SLPOUT = 0x11"
definition ST7789_NORON :: int where "ST7789_NORON = 0x13"
definition ST7789_INVON :: int where "ST7789_INVON = 0x21"
definition ST7789_DISPOFF :: int where "ST7789_DISPOFF = 0x28"
definition ST7789_DISPON :: int where "ST7789_DISPON = 0x29"
definition ST7789_CASET :: int where "ST7789_CASET = 0x2A"
definition ST7789_RASET :: int where "ST7789_RASET = 0x2B"
definition ST7789_RAMWR :: int where "ST7789_RAMWR = 0x2C"
definition ST7789_MADCTL :: int where "ST7789_MADCTL = 0x36"
definition ST7789_COLMOD :: int where "ST7789_COLMOD = 0x3A"

text \<open>
  The driver object: the panel size and the three handles, each \<open>True\<close> while the
  attribute holds an object and \<open>False\<close> while it is \<^verbatim>\<open>None\<close>.
\<close>

record st7789 = world +
  self_width :: int
  self_height :: int
  self_spi :: bool
  self_dc_request :: bool
  self_rst_request :: bool

definition command :: "int \<Rightarrow> st7789 proc" where
  "command cmd self =
     (if \<not> self_dc_request self \<or> \<not> self_spi self then (None, self)
      else except_Exception (seq [
             hw_call (SetDC False),
             hw_call (SpiWrite Cmd [cmd])]) self)"

text \<open>
  \<^verbatim>\<open>bytes(data_val)\<close> raises \<^verbatim>\<open>ValueError\<close> when an element is outside \<^verbatim>\<open>range(256)\<close>.
\<close>

definition to_bytes :: "kind \<Rightarrow> int list \<Rightarrow> ('a world_scheme) proc" where
  "to_bytes k l =
     (if list_all (\<lambda>b. 0 \<le> b \<and> b < 256) l then hw_call (SpiWrite k l) else raise ValueError)"

definition data :: "data_val \<Rightarrow> st7789 proc" where
  "data data_val self =
     (if \<not> self_dc_request self \<or> \<not> self_spi self then (None, self)
      else except_Exception (seq [
             hw_call (SetDC True),
             (case data_val of
                DInt v \<Rightarrow> hw_call (SpiWrite Dat [v])
              | DBytes bs \<Rightarrow> hw_call (SpiWrite Dat (map uint bs))
              | DList l \<Rightarrow> to_bytes Dat l
              | DSeq l \<Rightarrow> to_bytes Dat l)]) self)"

definition reset :: "st7789 proc" where
  "reset self =
     (if \<not> self_rst_request self then (None, self)
      else except_Exception (seq [
             hw_call (SetRST True),
             sleep (50 / 1000),
             hw_call (SetRST False),
             sleep (50 / 1000),
             hw_call (SetRST True),
             sleep (150 / 1000)]) self)"

definition init_display :: "st7789 proc" where
  "init_display = seq [
     command ST7789_SWRESET,
     sleep (150 / 1000),
     command ST7789_SLPOUT,
     sleep (500 / 1000),
     command ST7789_MADCTL,
     data (DInt 0x60),
     command ST7789_COLMOD,
     data (DInt 0x55),
     command ST7789_INVON,
     command ST7789_NORON,
     sleep (10 / 1000),
     command ST7789_DISPON,
     sleep (100 / 1000)]"

definition clip :: "int \<Rightarrow> int \<Rightarrow> int" where
  "clip v extent = max 0 (min v (extent - 1))"

definition hi_lo :: "int \<Rightarrow> int list" where
  "hi_lo v = [drop_bit 8 v AND 0xFF, v AND 0xFF]"

definition set_window :: "int \<Rightarrow> int \<Rightarrow> int option \<Rightarrow> int option \<Rightarrow> st7789 proc" where
  "set_window x0 y0 x1 y1 self =
     (let x1 = (case x1 of None \<Rightarrow> self_width self - 1 | Some v \<Rightarrow> v);
          y1 = (case y1 of None \<Rightarrow> self_height self - 1 | Some v \<Rightarrow> v);
          x0 = clip x0 (self_width self);
          x1 = clip x1 (self_width self);
          y0 = clip y0 (self_height self);
          y1 = clip y1 (self_height self)
      in seq [
           command ST7789_CASET,
           data (DList (hi_lo x0 @ hi_lo x1)),
           command ST7789_RASET,
           data (DList (hi_lo y0 @ hi_lo y1)),
           command ST7789_RAMWR] self)"

text \<open>
  \<^verbatim>\<open>display_image\<close>, from the pixel array of the resized RGB image on: convert, set the
  full-screen window, send the bytes. (Mode conversion and resizing are Pillow's.)
\<close>

definition display_image :: "rgb888 list \<Rightarrow> st7789 proc" where
  "display_image pixels =
     (let pixel_bytes = pixel_bytes_v4 pixels
      in seq [
           set_window 0 0 None None,
           data (DBytes pixel_bytes)])"


definition close_display_off :: "st7789 proc" where
  "close_display_off =
     except_Exception (\<lambda>self.
       if self_spi self \<and> self_dc_request self
       then seq [command ST7789_DISPOFF, sleep (50 / 1000)] self
       else (None, self))"





text \<open>The three handles of the driver object: bus, DC request, RST request.\<close>

definition handles :: "st7789 \<Rightarrow> bool \<times> bool \<times> bool" where
  "handles self = (self_spi self, self_dc_request self, self_rst_request self)"

section \<open>\<^verbatim>\<open>webm_video_st7789.py\<close>: the display helpers\<close>

definition WIDTH :: int where "WIDTH = 320"
definition HEIGHT :: int where "HEIGHT = 240"
definition ROTATION :: int where "ROTATION = 0x60"
definition SPI_CHUNK_SIZE :: nat where "SPI_CHUNK_SIZE = 4096"

definition TARGET_FPS :: rat where "TARGET_FPS = 25"

text \<open>
  The global \<^verbatim>\<open>spi\<close>: \<open>False\<close> while it is \<^verbatim>\<open>None\<close>, \<open>True\<close> once \<^verbatim>\<open>play_video\<close> has
  stored the \<^verbatim>\<open>SpiDev\<close> object in it. \<open>ffmpeg_proc\<close> is the local variable of
  \<^verbatim>\<open>play_video\<close>: \<open>True\<close> once it holds the \<^verbatim>\<open>Popen\<close> object. The parameter
  \<^verbatim>\<open>gpio_request\<close> of the helpers is the one request that owns both lines; the level
  writes in the trace are made on it.
\<close>

record player = world +
  spi :: bool
  ffmpeg_proc :: bool

text \<open>
  \<^verbatim>\<open>for i in range(0, len(data_list), SPI_CHUNK_SIZE): data_list[i:i+SPI_CHUNK_SIZE]\<close>
\<close>

definition chunks :: "nat \<Rightarrow> 'a list \<Rightarrow> 'a list list" where
  "chunks n xs = map (\<lambda>k. take n (drop (k * n) xs)) [0 ..< (length xs + n - 1) div n]"

definition spi_write :: "kind \<Rightarrow> int list \<Rightarrow> player proc" where
  "spi_write k data_list g =
     (if \<not> spi g then (None, g)
      else except_Exception
             (seq (map (\<lambda>c. hw_call (SpiWrite k c)) (chunks SPI_CHUNK_SIZE data_list))) g)"

definition write_command :: "int \<Rightarrow> player proc" where
  "write_command cmd = seq [
     hw_call (SetDC False),
     spi_write Cmd [cmd]]"

definition write_data :: "data_val \<Rightarrow> player proc" where
  "write_data data_v = seq [
     hw_call (SetDC True),
     (case data_v of
        DInt v \<Rightarrow> spi_write Dat [v]
      | DBytes bs \<Rightarrow> spi_write Dat (map uint bs)
      | DList l \<Rightarrow> spi_write Dat l
      | DSeq l \<Rightarrow> pass)]"

definition reset_display :: "player proc" where
  "reset_display = seq [
     hw_call (SetRST False),
     sleep (1 / 10),
     hw_call (SetRST True),
     sleep (1 / 10)]"

definition init_display_webm :: "player proc" where
  "init_display_webm = seq [
     reset_display,
     write_command 0x11,
     sleep (12 / 100),
     write_command 0x3A,
     write_data (DInt 0x55),
     write_command 0x36,
     write_data (DInt ROTATION),
     write_command 0x29,
     sleep (1 / 10)]"

definition set_address_window :: "int \<Rightarrow> int \<Rightarrow> int \<Rightarrow> int \<Rightarrow> player proc" where
  "set_address_window x0 y0 x1 y1 = seq [
     write_command 0x2A,
     write_data (DList (hi_lo x0 @ hi_lo x1)),
     write_command 0x2B,
     write_data (DList (hi_lo y0 @ hi_lo y1)),
     write_command 0x2C]"

definition display_frame_rgb565 :: "rgb888 list \<Rightarrow> player proc" where
  "display_frame_rgb565 img =
     (let pixel_data_bytes = pixel_bytes_webm img
      in seq [
           set_address_window 0 0 (WIDTH - 1) (HEIGHT - 1),
           write_data (DBytes pixel_data_bytes)])"

section \<open>\<^verbatim>\<open>webm_video_st7789.py\<close>: playback\<close>

text \<open>
  What \<^verbatim>\<open>play_video\<close> meets outside the program is given as input. One \<open>iter\<close> is what
  one pass of the \<^verbatim>\<open>while True\<close> loop meets: the three clock readings, the outcome of
  \<^verbatim>\<open>ffmpeg_proc.stdout.read(frame_size)\<close>, and whether \<^verbatim>\<open>Image.frombytes\<close> succeeds.
\<close>

datatype read_result = ReadRaises exn | ReadBytes "8 word list"

record iter =
  loop_start_time :: rat
  in_read :: read_result
  frombytes_ok :: bool
  loop_end_time :: rat
  current_time :: rat

record session =
  is_file :: bool
  alive_after_start :: bool
  start_time :: rat
  reads :: "iter list"
  still_running :: bool

definition frame_size :: nat where
  "frame_size = nat (WIDTH * HEIGHT * 3)"

definition frame_interval :: rat where
  "frame_interval = 1 / TARGET_FPS"

text \<open>The pixel array of an RGB image built from raw bytes: three bytes per pixel.\<close>

fun rgb_pixels :: "8 word list \<Rightarrow> rgb888 list" where
  "rgb_pixels (r # g # b # rest) = (r, g, b) # rgb_pixels rest"
| "rgb_pixels _ = []"

definition black_frame :: "rgb888 list" where
  "black_frame = replicate (nat (WIDTH * HEIGHT)) (0, 0, 0)"

text \<open>
  \<^verbatim>\<open>extract_frames\<close>: start ffmpeg, wait 0.1 s, return the process when it is still alive
  and \<^verbatim>\<open>None\<close> otherwise; every \<^verbatim>\<open>Exception\<close> is caught and gives \<^verbatim>\<open>None\<close>. The result is
  stored in \<open>ffmpeg_proc\<close>, as the caller does.
\<close>

definition extract_frames :: "bool \<Rightarrow> player proc" where
  "extract_frames alive =
     except_Exception (seq [
       hw_call Popen,
       sleep (1 / 10),
       (\<lambda>g. (None, g\<lparr>ffmpeg_proc := alive\<rparr>))])"

text \<open>
  One pass of the loop body. \<open>Break\<close> and \<open>Continue\<close> are the statements of the same name,
  \<open>Propagate\<close> is an exception that leaves the loop, \<open>Next\<close> is the end of the body with the
  new \<^verbatim>\<open>frame_count\<close> and \<^verbatim>\<open>last_fps_update_time\<close>.
\<close>

datatype body_result = Break | Continue | Propagate exn | Next nat rat

definition loop_body :: "iter \<Rightarrow> nat \<Rightarrow> rat \<Rightarrow> rat \<Rightarrow> player \<Rightarrow> body_result \<times> player" where
  "loop_body i frame_count start last_fps_update_time g =
     (case in_read i of
        ReadRaises e \<Rightarrow> if e = KeyboardInterrupt then (Propagate e, g) else (Break, g)
      | ReadBytes in_bytes \<Rightarrow>
          if in_bytes = [] then (Break, g)
          else if length in_bytes < frame_size then (Break, g)
          else if \<not> frombytes_ok i then (Continue, g)
          else
            (case display_frame_rgb565 (rgb_pixels in_bytes) g of
               (Some e, g1) \<Rightarrow> (Propagate e, g1)
             | (None, g1) \<Rightarrow>
                 let frame_count = frame_count + 1;
                     processing_time = loop_end_time i - loop_start_time i;
                     sleep_time = frame_interval - processing_time;
                     g2 = (if sleep_time > 0 then snd (sleep sleep_time g1) else g1);
                     last_fps_update_time =
                       (if current_time i - last_fps_update_time \<ge> 2 then current_time i
                        else last_fps_update_time)
                 in (Next frame_count last_fps_update_time, g2)))"

text \<open>
  The loop, over the script of its passes. A script that ends without a pass that leaves
  the loop reads as the end of the stream (\<^verbatim>\<open>read\<close> returns no bytes).
\<close>

fun playback_loop :: "iter list \<Rightarrow> nat \<Rightarrow> rat \<Rightarrow> rat \<Rightarrow> player proc" where
  "playback_loop [] frame_count start last_fps_update_time g = (None, g)"
| "playback_loop (i # rest) frame_count start last_fps_update_time g =
     (case loop_body i frame_count start last_fps_update_time g of
        (Break, g1) \<Rightarrow> (None, g1)
      | (Continue, g1) \<Rightarrow> playback_loop rest frame_count start last_fps_update_time g1
      | (Propagate e, g1) \<Rightarrow> (Some e, g1)
      | (Next frame_count1 last1, g1) \<Rightarrow> playback_loop rest frame_count1 start last1 g1)"

text \<open>
  \<^verbatim>\<open>with gpiod.request_lines(...) as gpio_request:\<close> the lines are requested, the body
  runs, and the request is released when the body is left, by its end, by \<^verbatim>\<open>return\<close> or by
  an exception, which goes on after the release.
\<close>

definition with_request_lines :: "player proc \<Rightarrow> player proc" where
  "with_request_lines body g =
     (case hw_call GpioRequest g of
        (Some e, g1) \<Rightarrow> (Some e, g1)
      | (None, g1) \<Rightarrow>
          (case body g1 of (r, g2) \<Rightarrow>
             (case hw_call GpioRelease g2 of
                (Some e, g3) \<Rightarrow> (Some e, g3)
              | (None, g3) \<Rightarrow> (r, g3))))"

text \<open>
  The \<^verbatim>\<open>except\<close> clauses of \<^verbatim>\<open>play_video\<close> end with \<^verbatim>\<open>except KeyboardInterrupt\<close> and
  \<^verbatim>\<open>except Exception\<close>; each only prints.
\<close>

definition except_all :: "'s proc \<Rightarrow> 's proc" where
  "except_all p w = (None, snd (p w))"

definition try_finally :: "'s proc \<Rightarrow> 's proc \<Rightarrow> 's proc" where
  "try_finally p final w =
     (case p w of (r, w1) \<Rightarrow>
        (case final w1 of
           (Some e, w2) \<Rightarrow> (Some e, w2)
         | (None, w2) \<Rightarrow> (r, w2)))"

text \<open>
  \<^verbatim>\<open>ffmpeg_proc.wait(timeout=1.0)\<close> in its \<^verbatim>\<open>try\<close>: \<^verbatim>\<open>TimeoutExpired\<close> leads to
  \<^verbatim>\<open>kill()\<close>, any other \<^verbatim>\<open>Exception\<close> is printed.
\<close>

definition wait_or_kill :: "player proc" where
  "wait_or_kill g =
     (case hw_call Wait g of
        (Some TimeoutExpired, g1) \<Rightarrow> hw_call Kill g1
      | (Some KeyboardInterrupt, g1) \<Rightarrow> (Some KeyboardInterrupt, g1)
      | (_, g1) \<Rightarrow> (None, g1))"

text \<open>
  The \<^verbatim>\<open>finally\<close> block, in its two parts. \<open>poll_is_None\<close> is the answer of
  \<^verbatim>\<open>ffmpeg_proc.poll() is None\<close>: the process is still running.
\<close>

definition stop_ffmpeg :: "bool \<Rightarrow> player proc" where
  "stop_ffmpeg poll_is_None g =
     (if ffmpeg_proc g \<and> poll_is_None
      then seq [
             hw_call Terminate,
             wait_or_kill,
             hw_call CloseStdout,
             hw_call CloseStderr] g
      else (None, g))"

definition close_spi_global :: "player proc" where
  "close_spi_global g = (if spi g then hw_call SpiClose g else (None, g))"

definition cleanup :: "bool \<Rightarrow> player proc" where
  "cleanup poll_is_None = seq [stop_ffmpeg poll_is_None, close_spi_global]"

definition play_video :: "session \<Rightarrow> player proc" where
  "play_video env g =
     (if \<not> is_file env then (None, g)
      else
        try_finally
          (except_all (seq [
             (\<lambda>g. (None, g\<lparr>spi := True\<rparr>)),
             hw_call SpiOpen,
             hw_call SpiSetSpeed,
             hw_call SpiSetMode,
             with_request_lines (seq [
               init_display_webm,
               display_frame_rgb565 black_frame,
               extract_frames (alive_after_start env),
               (\<lambda>g. if \<not> ffmpeg_proc g then (None, g)
                    else playback_loop (reads env) 0 (start_time env) (start_time env) g)])]))
          (cleanup (still_running env))
          (g\<lparr>ffmpeg_proc := False\<rparr>))"

section \<open>Reading a trace\<close>

text \<open>The events that a procedure adds to the trace of the state it starts in.\<close>

definition emitted :: "('a world_scheme) proc \<Rightarrow> 'a world_scheme \<Rightarrow> event list" where
  "emitted p w = drop (length (trace w)) (trace (snd (p w)))"

text \<open>
  The pairing of the DC line with the transfers. The state is \<open>Some l\<close> when the DC line
  was last set to level \<open>l\<close> and nothing but chunks of one data payload followed; a
  transfer is accepted in the state of its own level only. A command must follow its
  level write at once; a data payload may go out in several chunks after one level write.
\<close>

fun dc_paired :: "bool option \<Rightarrow> event list \<Rightarrow> bool" where
  "dc_paired m [] = True"
| "dc_paired m (Done (SetDC l) # es) = dc_paired (Some l) es"
| "dc_paired m (Done (SpiWrite k bs) # es) =
     (m = Some (k = Dat) \<and> dc_paired (if k = Dat then m else None) es)"
| "dc_paired m (Failed (SpiWrite k bs) # es) = (m = Some (k = Dat) \<and> dc_paired None es)"
| "dc_paired m (e # es) = dc_paired None es"

text \<open>The levels written to the reset line, and the opcodes sent, in order.\<close>

fun rst_levels :: "event list \<Rightarrow> bool list" where
  "rst_levels [] = []"
| "rst_levels (Done (SetRST l) # es) = l # rst_levels es"
| "rst_levels (e # es) = rst_levels es"

fun commands_of :: "event list \<Rightarrow> int list" where
  "commands_of [] = []"
| "commands_of (Done (SpiWrite Cmd bs) # es) = bs @ commands_of es"
| "commands_of (e # es) = commands_of es"

text \<open>
  The window that a trace puts on the wire: the payloads that follow the column-address
  and row-address opcodes, each read back as two big-endian 16-bit numbers.
\<close>

fun payload_after :: "int \<Rightarrow> event list \<Rightarrow> int list option" where
  "payload_after c (Done (SpiWrite Cmd [c1]) # Done (SetDC True) # Done (SpiWrite Dat bs) # es) =
     (if c1 = c then Some bs else payload_after c es)"
| "payload_after c (e # es) = payload_after c es"
| "payload_after c [] = None"

fun decode_pair :: "int list \<Rightarrow> (int \<times> int) option" where
  "decode_pair [a, b, c, d] = Some (a * 256 + b, c * 256 + d)"
| "decode_pair _ = None"

definition wire_window :: "event list \<Rightarrow> ((int \<times> int) \<times> (int \<times> int)) option" where
  "wire_window es =
     (case (payload_after 0x2A es, payload_after 0x2B es) of
        (Some xs, Some ys) \<Rightarrow>
          (case (decode_pair xs, decode_pair ys) of
             (Some cols, Some rows) \<Rightarrow> Some (cols, rows)
           | _ \<Rightarrow> None)
      | _ \<Rightarrow> None)"

text \<open>The calls of teardown in a trace: process control, line release, transport close.\<close>

definition teardown_call :: "call \<Rightarrow> bool" where
  "teardown_call c =
     (c = GpioRelease \<or> c = Terminate \<or> c = Wait \<or> c = Kill \<or> c = CloseStdout \<or>
      c = CloseStderr \<or> c = SpiClose)"

fun is_teardown :: "event \<Rightarrow> bool" where
  "is_teardown (Done c) = teardown_call c"
| "is_teardown (Failed c) = teardown_call c"
| "is_teardown (Sleep d) = False"

definition teardown_calls :: "event list \<Rightarrow> event list" where
  "teardown_calls es = filter is_teardown es"

section \<open>Reference inputs and the claimed shapes\<close>

text \<open>A 320 by 240 panel with all three handles held, and a player with the bus open.\<close>

definition panel0 :: st7789 where
  "panel0 = \<lparr>trace = [], faults = [], self_width = 320, self_height = 240,
     self_spi = True, self_dc_request = True, self_rst_request = True\<rparr>"

definition player0 :: player where
  "player0 = \<lparr>trace = [], faults = [], spi = True, ffmpeg_proc = False\<rparr>"

text \<open>
  A window inside a panel of the given size, with its corners in order: the shape that
  the specification asks of every window on the wire.
\<close>

definition window_ok :: "int \<Rightarrow> int \<Rightarrow> (int \<times> int) \<times> (int \<times> int) \<Rightarrow> bool" where
  "window_ok w h win = (case win of ((x0, x1), (y0, y1)) \<Rightarrow>
     0 \<le> x0 \<and> x0 \<le> x1 \<and> x1 \<le> w - 1 \<and> 0 \<le> y0 \<and> y0 \<le> y1 \<and> y1 \<le> h - 1)"

text \<open>The events of one window command sequence, for given corner coordinates.\<close>

definition window_events :: "int \<Rightarrow> int \<Rightarrow> int \<Rightarrow> int \<Rightarrow> event list" where
  "window_events x0 y0 x1 y1 =
     [Done (SetDC False), Done (SpiWrite Cmd [0x2A]),
      Done (SetDC True), Done (SpiWrite Dat (hi_lo x0 @ hi_lo x1)),
      Done (SetDC False), Done (SpiWrite Cmd [0x2B]),
      Done (SetDC True), Done (SpiWrite Dat (hi_lo y0 @ hi_lo y1)),
      Done (SetDC False), Done (SpiWrite Cmd [0x2C])]"

text \<open>A window with every corner inside a panel of the given size.\<close>

definition in_panel :: "int \<Rightarrow> int \<Rightarrow> (int \<times> int) \<times> (int \<times> int) \<Rightarrow> bool" where
  "in_panel w h win = (case win of ((x0, x1), (y0, y1)) \<Rightarrow>
     0 \<le> x0 \<and> x0 \<le> w - 1 \<and> 0 \<le> x1 \<and> x1 \<le> w - 1 \<and>
     0 \<le> y0 \<and> y0 \<le> h - 1 \<and> 0 \<le> y1 \<and> y1 \<le> h - 1)"

text \<open>
  What a run of library calls leaves in the trace under a fault script: the calls go out
  in order, and the first one that raises is the last one made.
\<close>

fun attempts :: "exn option list \<Rightarrow> call list \<Rightarrow> event list" where
  "attempts fs [] = []"
| "attempts [] (c # cs) = Done c # attempts [] cs"
| "attempts (None # fs) (c # cs) = Done c # attempts fs cs"
| "attempts (Some e # fs) (c # cs) = [Failed c]"

section \<open>Properties of the events a procedure adds\<close>

text \<open>
  \<open>emits P p\<close>: from every state, \<open>p\<close> only extends the trace, and the events it adds
  satisfy \<open>P\<close>.
\<close>

definition emits :: "(event list \<Rightarrow> bool) \<Rightarrow> ('a world_scheme) proc \<Rightarrow> bool" where
  "emits P p = (\<forall>w. \<exists>es. trace (snd (p w)) = trace w @ es \<and> P es)"

definition closed_under_append :: "(event list \<Rightarrow> bool) \<Rightarrow> bool" where
  "closed_under_append P = (P [] \<and> (\<forall>a b. P a \<and> P b \<longrightarrow> P (a @ b)))"

section \<open>Frames and pacing\<close>

text \<open>The events of one frame on the wire when no call fails: window, then the pixel chunks.\<close>

definition frame_events :: "rgb888 list \<Rightarrow> event list" where
  "frame_events img =
     window_events 0 0 (WIDTH - 1) (HEIGHT - 1) @
     Done (SetDC True) #
     map (\<lambda>c. Done (SpiWrite Dat c)) (chunks SPI_CHUNK_SIZE (map uint (pixel_bytes_webm img)))"

text \<open>
  The pacing as the specification words it: after a frame, sleep for
  \<open>max(0, frame_interval - elapsed)\<close>, with \<open>elapsed\<close> measured in this pass alone. A sleep
  of length zero is no call at all.
\<close>

definition pacing_sleep :: "iter \<Rightarrow> rat" where
  "pacing_sleep i = max 0 (frame_interval - (loop_end_time i - loop_start_time i))"

definition sleep_events :: "rat \<Rightarrow> event list" where
  "sleep_events d = (if d > 0 then [Sleep d] else [])"

fun sleeps_of :: "event list \<Rightarrow> rat list" where
  "sleeps_of [] = []"
| "sleeps_of (Sleep d # es) = d # sleeps_of es"
| "sleeps_of (e # es) = sleeps_of es"

text \<open>A pass that reads a whole frame and builds the image from it.\<close>

definition full_frame :: "iter \<Rightarrow> bool" where
  "full_frame i =
     (case in_read i of
        ReadBytes bs \<Rightarrow> frame_size \<le> length bs \<and> frombytes_ok i
      | ReadRaises e \<Rightarrow> False)"

text \<open>The bytes that a pass reads; none when the read raises.\<close>

definition read_bytes :: "iter \<Rightarrow> 8 word list" where
  "read_bytes i = (case in_read i of ReadBytes bs \<Rightarrow> bs | ReadRaises e \<Rightarrow> [])"

text \<open>A pass that reads a whole black frame, with the given clock readings.\<close>

definition pass_at :: "rat \<Rightarrow> rat \<Rightarrow> iter" where
  "pass_at t0 t1 =
     \<lparr>loop_start_time = t0, in_read = ReadBytes (replicate frame_size 0), frombytes_ok = True,
      loop_end_time = t1, current_time = t1\<rparr>"

section \<open>A whole session when no call fails\<close>

text \<open>
  What the playback loop adds to the trace, and how it ends, when no library call fails:
  a frame and its pacing sleep for every pass that displays, up to the first pass that
  leaves the loop.
\<close>

fun loop_events :: "iter list \<Rightarrow> event list" where
  "loop_events [] = []"
| "loop_events (i # rest) =
     (case in_read i of
        ReadRaises e \<Rightarrow> []
      | ReadBytes bs \<Rightarrow>
          if bs = [] \<or> length bs < frame_size then []
          else if \<not> frombytes_ok i then loop_events rest
          else frame_events (rgb_pixels bs) @ sleep_events (pacing_sleep i) @ loop_events rest)"

fun loop_result :: "iter list \<Rightarrow> exn option" where
  "loop_result [] = None"
| "loop_result (i # rest) =
     (case in_read i of
        ReadRaises e \<Rightarrow> if e = KeyboardInterrupt then Some e else None
      | ReadBytes bs \<Rightarrow>
          if bs = [] \<or> length bs < frame_size then None
          else loop_result rest)"

text \<open>The events of \<^verbatim>\<open>play_video\<close> before its loop, when no call fails.\<close>

definition startup_events :: "event list" where
  "startup_events =
     [Done SpiOpen, Done SpiSetSpeed, Done SpiSetMode, Done GpioRequest,
      Done (SetRST False), Sleep (1 / 10), Done (SetRST True), Sleep (1 / 10),
      Done (SetDC False), Done (SpiWrite Cmd [0x11]), Sleep (12 / 100),
      Done (SetDC False), Done (SpiWrite Cmd [0x3A]), Done (SetDC True), Done (SpiWrite Dat [0x55]),
      Done (SetDC False), Done (SpiWrite Cmd [0x36]), Done (SetDC True), Done (SpiWrite Dat [0x60]),
      Done (SetDC False), Done (SpiWrite Cmd [0x29]), Sleep (1 / 10)] @
     frame_events black_frame @
     [Done Popen, Sleep (1 / 10)]"

text \<open>The calls that stop a running ffmpeg process that exits within the timeout.\<close>

definition stop_events :: "event list" where
  "stop_events = [Done Terminate, Done Wait, Done CloseStdout, Done CloseStderr]"

text \<open>A session: the file exists, ffmpeg starts, and the given passes follow.\<close>

definition session_of :: "iter list \<Rightarrow> bool \<Rightarrow> session" where
  "session_of passes running =
     \<lparr>is_file = True, alive_after_start = True, start_time = 0, reads = passes,
      still_running = running\<rparr>"

definition interrupted_pass :: iter where
  "interrupted_pass =
     \<lparr>loop_start_time = 0, in_read = ReadRaises KeyboardInterrupt, frombytes_ok = False,
      loop_end_time = 0, current_time = 0\<rparr>"

section \<open>The pixel stream of a trace\<close>

text \<open>
  The data bytes that a trace puts on the bus, in order, and the part of them that
  follows the memory-write opcode 0x2C: the bytes that the panel takes as pixels.
\<close>

fun data_bytes :: "event list \<Rightarrow> int list" where
  "data_bytes [] = []"
| "data_bytes (Done (SpiWrite Dat bs) # es) = bs @ data_bytes es"
| "data_bytes (e # es) = data_bytes es"

fun after_ramwr :: "event list \<Rightarrow> event list" where
  "after_ramwr [] = []"
| "after_ramwr (Done (SpiWrite Cmd bs) # es) = (if bs = [0x2C] then es else after_ramwr es)"
| "after_ramwr (e # es) = after_ramwr es"

definition pixel_stream :: "event list \<Rightarrow> int list" where
  "pixel_stream es = data_bytes (after_ramwr es)"

section \<open>Colour conversion: proofs\<close>

lemma F8_word: "(0xF8 :: 16 word) = push_bit 3 (mask 5)"
  by (simp add: mask_eq_exp_minus_1 push_bit_eq_mult)

lemma FC_word: "(0xFC :: 16 word) = push_bit 2 (mask 6)"
  by (simp add: mask_eq_exp_minus_1 push_bit_eq_mult)

lemma F8_int: "(0xF8 :: int) = push_bit 3 (mask 5)"
  by (simp add: mask_eq_exp_minus_1 push_bit_eq_mult)

lemma FC_int: "(0xFC :: int) = push_bit 2 (mask 6)"
  by (simp add: mask_eq_exp_minus_1 push_bit_eq_mult)

lemma Suc2_diff: "5 \<le> n \<Longrightarrow> Suc (Suc (n - 5)) = n - 3"
  by simp

lemma red_field:
  "push_bit 8 ((ucast (r :: 8 word) :: 16 word) AND 0xF8) = push_bit 11 (drop_bit 3 (ucast r))"
  unfolding F8_word
  by (rule bit_word_eqI) (auto simp add: bit_simps dest: bit_imp_le_length)

lemma green_field:
  "push_bit 3 ((ucast (g :: 8 word) :: 16 word) AND 0xFC) = push_bit 5 (drop_bit 2 (ucast g))"
  unfolding FC_word
  by (rule bit_word_eqI) (auto simp add: bit_simps Suc2_diff dest: bit_imp_le_length)

lemma blue_field:
  "drop_bit 3 ((ucast (b :: 8 word) :: 16 word) AND 0xF8) = drop_bit 3 (ucast b)"
  unfolding F8_word
  by (rule bit_word_eqI) (auto simp add: bit_simps dest: bit_imp_le_length)

lemma rgb565_v4_webm: "rgb565_v4 p = rgb565_webm p"
  unfolding rgb565_v4_def rgb565_webm_def Let_def
  by (cases p) (simp only: prod.case red_field green_field blue_field)

lemma uint_red:
  "uint (push_bit 8 ((ucast (r :: 8 word) :: 16 word) AND 0xF8)) = push_bit 8 (uint r AND 0xF8)"
  unfolding F8_word F8_int
  by (rule bit_eqI) (auto simp add: bit_simps dest: bit_imp_le_length)

lemma uint_green:
  "uint (push_bit 3 ((ucast (g :: 8 word) :: 16 word) AND 0xFC)) = push_bit 3 (uint g AND 0xFC)"
  unfolding FC_word FC_int
  by (rule bit_eqI) (auto simp add: bit_simps dest: bit_imp_le_length)

lemma uint_blue:
  "uint (drop_bit 3 ((ucast (b :: 8 word) :: 16 word) AND 0xF8)) = drop_bit 3 (uint b AND 0xF8)"
  unfolding F8_word F8_int
  by (rule bit_eqI) (auto simp add: bit_simps dest: bit_imp_le_length)

lemma uint_rgb565_v4:
  "uint (rgb565_v4 (r, g, b)) =
     push_bit 8 (uint r AND 0xF8) OR push_bit 3 (uint g AND 0xFC) OR drop_bit 3 (uint b AND 0xF8)"
  unfolding rgb565_v4_def Let_def prod.case
  by (simp only: uint_or uint_red uint_green uint_blue)

lemma tobytes_native_byteswap: "tobytes_native (byteswap w) = tobytes_be w"
proof -
  have "(ucast (push_bit 8 w OR drop_bit 8 w) :: 8 word) = ucast (drop_bit 8 w)"
    by (rule bit_word_eqI) (auto simp add: bit_simps)
  moreover have "(ucast (drop_bit 8 (push_bit 8 w OR drop_bit 8 w)) :: 8 word) = ucast w"
    by (rule bit_word_eqI) (auto simp add: bit_simps dest: bit_imp_le_length)
  ultimately show ?thesis
    by (simp add: tobytes_native_def tobytes_be_def byteswap_def)
qed

lemma pixel_bytes_v4_be:
  "pixel_bytes_v4 pixels = concat (map (\<lambda>p. tobytes_be (rgb565_v4 p)) pixels)"
  by (simp add: pixel_bytes_v4_def tobytes_native_byteswap)

section \<open>Traces when no call fails\<close>

lemmas opcodes =
  ST7789_SWRESET_def ST7789_SLPOUT_def ST7789_NORON_def ST7789_INVON_def
  ST7789_DISPOFF_def ST7789_DISPON_def ST7789_CASET_def ST7789_RASET_def
  ST7789_RAMWR_def ST7789_MADCTL_def ST7789_COLMOD_def

lemma emitted_eq: "p w = (r, w\<lparr>trace := trace w @ es\<rparr>) \<Longrightarrow> emitted p w = es"
  by (simp add: emitted_def)

lemma hw_call_nofault:
  "faults w = [] \<Longrightarrow> hw_call c w = (None, w\<lparr>trace := trace w @ [Done c]\<rparr>)"
  by (simp add: hw_call_def)

lemma command_nofault:
  "faults self = [] \<Longrightarrow> self_spi self \<Longrightarrow> self_dc_request self \<Longrightarrow>
   command cmd self = (None, self\<lparr>trace := trace self @ [Done (SetDC False), Done (SpiWrite Cmd [cmd])]\<rparr>)"
  by (simp add: command_def except_Exception_def hw_call_nofault)

lemma data_int_nofault:
  "faults self = [] \<Longrightarrow> self_spi self \<Longrightarrow> self_dc_request self \<Longrightarrow>
   data (DInt v) self = (None, self\<lparr>trace := trace self @ [Done (SetDC True), Done (SpiWrite Dat [v])]\<rparr>)"
  by (simp add: data_def except_Exception_def hw_call_nofault)

lemma reset_nofault:
  "faults self = [] \<Longrightarrow> self_rst_request self \<Longrightarrow>
   reset self = (None, self\<lparr>trace := trace self @
     [Done (SetRST True), Sleep (1/20), Done (SetRST False), Sleep (1/20), Done (SetRST True), Sleep (3/20)]\<rparr>)"
  by (simp add: reset_def except_Exception_def hw_call_nofault sleep_def)

lemma init_nofault:
  "faults self = [] \<Longrightarrow> self_spi self \<Longrightarrow> self_dc_request self \<Longrightarrow>
   init_display self = (None, self\<lparr>trace := trace self @
     [Done (SetDC False), Done (SpiWrite Cmd [0x01]), Sleep (3/20),
      Done (SetDC False), Done (SpiWrite Cmd [0x11]), Sleep (1/2),
      Done (SetDC False), Done (SpiWrite Cmd [0x36]), Done (SetDC True), Done (SpiWrite Dat [0x60]),
      Done (SetDC False), Done (SpiWrite Cmd [0x3A]), Done (SetDC True), Done (SpiWrite Dat [0x55]),
      Done (SetDC False), Done (SpiWrite Cmd [0x21]),
      Done (SetDC False), Done (SpiWrite Cmd [0x13]), Sleep (1/100),
      Done (SetDC False), Done (SpiWrite Cmd [0x29]), Sleep (1/10)]\<rparr>)"
  by (simp add: init_display_def command_nofault data_int_nofault sleep_def opcodes)

lemma seq_writes_nofault:
  "faults g = [] \<Longrightarrow>
   seq (map (\<lambda>c. hw_call (SpiWrite k c)) cs) g =
     (None, g\<lparr>trace := trace g @ map (\<lambda>c. Done (SpiWrite k c)) cs\<rparr>)"
  by (induction cs arbitrary: g) (simp_all add: hw_call_nofault)

lemma spi_write_nofault:
  "faults g = [] \<Longrightarrow> spi g \<Longrightarrow>
   spi_write k d g = (None, g\<lparr>trace := trace g @ map (\<lambda>c. Done (SpiWrite k c)) (chunks SPI_CHUNK_SIZE d)\<rparr>)"
  by (simp add: spi_write_def except_Exception_def seq_writes_nofault)

lemma chunks_single: "chunks SPI_CHUNK_SIZE [x] = [[x]]"
  by (simp add: chunks_def SPI_CHUNK_SIZE_def)

lemma chunks_four: "chunks SPI_CHUNK_SIZE [a, b, c, d] = [[a, b, c, d]]"
  by (simp add: chunks_def SPI_CHUNK_SIZE_def)

lemma write_command_nofault:
  "faults g = [] \<Longrightarrow> spi g \<Longrightarrow>
   write_command cmd g = (None, g\<lparr>trace := trace g @ [Done (SetDC False), Done (SpiWrite Cmd [cmd])]\<rparr>)"
  by (simp add: write_command_def hw_call_nofault spi_write_nofault chunks_single)

lemma write_data_int_nofault:
  "faults g = [] \<Longrightarrow> spi g \<Longrightarrow>
   write_data (DInt v) g = (None, g\<lparr>trace := trace g @ [Done (SetDC True), Done (SpiWrite Dat [v])]\<rparr>)"
  by (simp add: write_data_def hw_call_nofault spi_write_nofault chunks_single)

lemma reset_display_nofault:
  "faults g = [] \<Longrightarrow>
   reset_display g = (None, g\<lparr>trace := trace g @
     [Done (SetRST False), Sleep (1/10), Done (SetRST True), Sleep (1/10)]\<rparr>)"
  by (simp add: reset_display_def hw_call_nofault sleep_def)

lemma init_webm_nofault:
  "faults g = [] \<Longrightarrow> spi g \<Longrightarrow>
   init_display_webm g = (None, g\<lparr>trace := trace g @
     [Done (SetRST False), Sleep (1/10), Done (SetRST True), Sleep (1/10),
      Done (SetDC False), Done (SpiWrite Cmd [0x11]), Sleep (3/25),
      Done (SetDC False), Done (SpiWrite Cmd [0x3A]), Done (SetDC True), Done (SpiWrite Dat [0x55]),
      Done (SetDC False), Done (SpiWrite Cmd [0x36]), Done (SetDC True), Done (SpiWrite Dat [0x60]),
      Done (SetDC False), Done (SpiWrite Cmd [0x29]), Sleep (1/10)]\<rparr>)"
  by (simp add: init_display_webm_def reset_display_nofault write_command_nofault
      write_data_int_nofault sleep_def ROTATION_def)

section \<open>Windows and pixel data when no call fails\<close>

lemma and_255_range: "0 \<le> (v::int) AND 0xFF \<and> v AND 0xFF < 256"
proof -
  have "v AND 255 = v mod 256"
    using take_bit_eq_mask [of 8 v] by (simp add: take_bit_eq_mod mask_eq_exp_minus_1)
  then show ?thesis by simp
qed

lemma hi_lo_range: "list_all (\<lambda>b. 0 \<le> b \<and> b < 256) (hi_lo v)"
  by (simp add: hi_lo_def and_255_range)

lemma hi_lo_decode: "decode_pair (hi_lo a @ hi_lo b) = Some (a mod 65536, b mod 65536)"
proof -
  have m: "v AND 255 = v mod 256" for v :: int
    using take_bit_eq_mask [of 8 v] by (simp add: take_bit_eq_mod mask_eq_exp_minus_1)
  have "(drop_bit 8 v AND 255) * 256 + (v AND 255) = v mod 65536" for v :: int
    unfolding m drop_bit_eq_div using zmod_zmult2_eq [of 256 v 256] by simp
  then show ?thesis by (simp add: hi_lo_def)
qed

lemma data_list_nofault:
  "faults self = [] \<Longrightarrow> self_spi self \<Longrightarrow> self_dc_request self \<Longrightarrow>
   list_all (\<lambda>b. 0 \<le> b \<and> b < 256) l \<Longrightarrow>
   data (DList l) self = (None, self\<lparr>trace := trace self @ [Done (SetDC True), Done (SpiWrite Dat l)]\<rparr>)"
  by (simp add: data_def except_Exception_def hw_call_nofault to_bytes_def)

lemma data_bytes_nofault:
  "faults self = [] \<Longrightarrow> self_spi self \<Longrightarrow> self_dc_request self \<Longrightarrow>
   data (DBytes bs) self = (None, self\<lparr>trace := trace self @ [Done (SetDC True), Done (SpiWrite Dat (map uint bs))]\<rparr>)"
  by (simp add: data_def except_Exception_def hw_call_nofault)

lemma set_window_nofault:
  "faults self = [] \<Longrightarrow> self_spi self \<Longrightarrow> self_dc_request self \<Longrightarrow>
   set_window x0 y0 x1 y1 self = (None, self\<lparr>trace := trace self @
     window_events (clip x0 (self_width self)) (clip y0 (self_height self))
       (clip (case x1 of None \<Rightarrow> self_width self - 1 | Some v \<Rightarrow> v) (self_width self))
       (clip (case y1 of None \<Rightarrow> self_height self - 1 | Some v \<Rightarrow> v) (self_height self))\<rparr>)"
  by (simp add: set_window_def Let_def command_nofault data_list_nofault hi_lo_range opcodes window_events_def)

lemma hi_lo_length: "length (hi_lo v) = 2"
  by (simp add: hi_lo_def)

lemma write_data_list4_nofault:
  "faults g = [] \<Longrightarrow> spi g \<Longrightarrow>
   write_data (DList (hi_lo a @ hi_lo b)) g =
     (None, g\<lparr>trace := trace g @ [Done (SetDC True), Done (SpiWrite Dat (hi_lo a @ hi_lo b))]\<rparr>)"
  by (simp add: write_data_def hw_call_nofault spi_write_nofault hi_lo_def chunks_four)

lemma set_address_window_nofault:
  "faults g = [] \<Longrightarrow> spi g \<Longrightarrow>
   set_address_window x0 y0 x1 y1 g = (None, g\<lparr>trace := trace g @ window_events x0 y0 x1 y1\<rparr>)"
  by (simp add: set_address_window_def write_command_nofault write_data_list4_nofault window_events_def)

lemma wire_window_events:
  "wire_window (window_events x0 y0 x1 y1) =
     Some ((x0 mod 65536, x1 mod 65536), (y0 mod 65536, y1 mod 65536))"
  by (simp add: wire_window_def window_events_def hi_lo_decode)

lemma clip_range: "1 \<le> n \<Longrightarrow> 0 \<le> clip v n \<and> clip v n \<le> n - 1"
  by (simp add: clip_def)

lemma clip_less: "1 \<le> n \<Longrightarrow> clip v n < n"
  by (simp add: clip_def)

lemma clip_mono: "a \<le> b \<Longrightarrow> clip a n \<le> clip b n"
  by (simp add: clip_def)

lemma display_image_nofault:
  "faults self = [] \<Longrightarrow> self_spi self \<Longrightarrow> self_dc_request self \<Longrightarrow>
   display_image pixels self = (None, self\<lparr>trace := trace self @
     window_events (clip 0 (self_width self)) (clip 0 (self_height self))
       (clip (self_width self - 1) (self_width self)) (clip (self_height self - 1) (self_height self)) @
     [Done (SetDC True), Done (SpiWrite Dat (map uint (pixel_bytes_v4 pixels)))]\<rparr>)"
  by (simp add: display_image_def set_window_nofault data_bytes_nofault)

section \<open>Chunked writes under any fault script\<close>

lemma concat_chunks_take:
  "concat (map (\<lambda>k. take n (drop (k * n) xs)) [0 ..< m]) = take (m * n) xs"
proof (induction m)
  case 0
  then show ?case by simp
next
  case (Suc m)
  have "take (n + m * n) xs = take (m * n) xs @ take n (drop (m * n) xs)"
    using take_add [of "m * n" n xs] by (simp only: add.commute)
  with Suc show ?case by simp
qed

lemma chunks_concat: "0 < n \<Longrightarrow> concat (chunks n xs) = xs"
proof -
  assume n: "0 < n"
  have "length xs \<le> ((length xs + n - 1) div n) * n"
  proof -
    have "length xs + n - 1 < ((length xs + n - 1) div n) * n + n"
      using n dividend_less_div_times [of n "length xs + n - 1"] by (simp add: mult.commute)
    then show ?thesis using n by simp
  qed
  then show ?thesis
    by (simp add: chunks_def concat_chunks_take)
qed

lemma chunks_length: "c \<in> set (chunks n xs) \<Longrightarrow> length c \<le> n"
  by (auto simp add: chunks_def)

lemma seq_hw_calls:
  "trace (snd (seq (map (\<lambda>c. hw_call (f c)) cs) w)) = trace w @ attempts (faults w) (map f cs)"
proof (induction cs arbitrary: w)
  case Nil
  then show ?case by simp
next
  case (Cons c cs)
  show ?case
  proof (cases "faults w")
    case Nil
    then show ?thesis using Cons [of "w\<lparr>trace := trace w @ [Done (f c)]\<rparr>"]
      by (simp add: hw_call_def)
  next
    case (Cons x fs)
    then show ?thesis using Cons.IH [of "w\<lparr>trace := trace w @ [Done (f c)], faults := fs\<rparr>"]
      by (cases x) (simp_all add: hw_call_def)
  qed
qed

lemma except_Exception_trace: "trace (snd (except_Exception p w)) = trace (snd (p w))"
  by (auto simp add: except_Exception_def split: prod.splits option.splits exn.splits)

lemma except_Exception_result:
  "fst (except_Exception p w) = None \<or> fst (except_Exception p w) = Some KeyboardInterrupt"
  by (auto simp add: except_Exception_def split: prod.splits option.splits exn.splits)

lemma emitted_append: "trace (snd (p w)) = trace w @ es \<Longrightarrow> emitted p w = es"
  by (simp add: emitted_def)

section \<open>Composing procedures\<close>

lemma emitsD: "emits P p \<Longrightarrow> P (emitted p w)"
  by (auto simp add: emits_def emitted_def dest: spec [of _ w])

lemma emits_seq:
  assumes "closed_under_append P" and "\<And>p. p \<in> set ps \<Longrightarrow> emits P p"
  shows "emits P (seq ps)"
  using assms(2)
proof (induction ps)
  case Nil
  then show ?case using assms(1) by (simp add: emits_def closed_under_append_def)
next
  case (Cons p ps)
  have p: "emits P p" and ps: "emits P (seq ps)"
    using Cons by simp_all
  show ?case
    unfolding emits_def
  proof
    fix w
    obtain r w1 where pw: "p w = (r, w1)" by (cases "p w")
    obtain es where es: "trace w1 = trace w @ es" "P es"
      using p pw by (auto simp add: emits_def dest: spec [of _ w])
    show "\<exists>es. trace (snd (seq (p # ps) w)) = trace w @ es \<and> P es"
    proof (cases r)
      case None
      obtain es' where "trace (snd (seq ps w1)) = trace w1 @ es'" "P es'"
        using ps by (auto simp add: emits_def)
      then show ?thesis
        using None pw es assms(1) by (auto simp add: closed_under_append_def)
    next
      case (Some e)
      then show ?thesis using pw es by auto
    qed
  qed
qed

lemma emits_except_Exception: "emits P p \<Longrightarrow> emits P (except_Exception p)"
  by (simp add: emits_def except_Exception_trace)

lemma emits_sleep: "P [Sleep d] \<Longrightarrow> emits P (sleep d)"
  by (simp add: emits_def sleep_def)

lemma emits_pass: "P [] \<Longrightarrow> emits P pass"
  by (simp add: emits_def pass_def)

lemma emits_raise: "P [] \<Longrightarrow> emits P (raise e)"
  by (simp add: emits_def raise_def)

lemma emits_hw_call: "P [Done c] \<Longrightarrow> P [Failed c] \<Longrightarrow> emits P (hw_call c)"
  by (auto simp add: emits_def hw_call_def split: list.splits option.splits)

lemma emits_if: "P [] \<Longrightarrow> emits P p \<Longrightarrow> emits P (\<lambda>w. if b w then (None, w) else p w)"
  by (auto simp add: emits_def)

section \<open>The DC line and the transfers\<close>

lemma dc_paired_weaken: "dc_paired None es \<Longrightarrow> dc_paired m es"
proof (cases es)
  case Nil
  then show ?thesis by simp
next
  case (Cons e es')
  assume "dc_paired None es"
  with Cons show ?thesis
    by (cases "(None :: bool option, e # es')" rule: dc_paired.cases) auto
qed

lemma dc_paired_append: "dc_paired m a \<Longrightarrow> dc_paired None b \<Longrightarrow> dc_paired m (a @ b)"
proof (induction m a rule: dc_paired.induct)
  case (1 m)
  then show ?case by (simp add: dc_paired_weaken)
qed auto

lemma dc_paired_closed: "closed_under_append (dc_paired None)"
  by (simp add: closed_under_append_def dc_paired_append)

lemma dc_group:
  assumes "emits (dc_paired (Some l)) q"
  shows "emits (dc_paired None) (seq [hw_call (SetDC l), q])"
  unfolding emits_def
proof
  fix w :: "'a world_scheme"
  have q: "\<exists>es. trace (snd (q v)) = trace v @ es \<and> dc_paired (Some l) es" for v
    using assms by (simp add: emits_def)
  show "\<exists>es. trace (snd (seq [hw_call (SetDC l), q] w)) = trace w @ es \<and> dc_paired None es"
  proof (cases "faults w")
    case Nil
    obtain es where "trace (snd (q (w\<lparr>trace := trace w @ [Done (SetDC l)]\<rparr>))) =
        (trace w @ [Done (SetDC l)]) @ es" "dc_paired (Some l) es"
      using q [of "w\<lparr>trace := trace w @ [Done (SetDC l)]\<rparr>"] by auto
    then show ?thesis using Nil
      by (auto simp add: hw_call_def split: prod.splits option.splits)
  next
    case (Cons f fs)
    obtain es where "trace (snd (q (w\<lparr>trace := trace w @ [Done (SetDC l)], faults := fs\<rparr>))) =
        (trace w @ [Done (SetDC l)]) @ es" "dc_paired (Some l) es"
      using q [of "w\<lparr>trace := trace w @ [Done (SetDC l)], faults := fs\<rparr>"] by auto
    then show ?thesis using Cons
      by (cases f) (auto simp add: hw_call_def split: prod.splits option.splits)
  qed
qed

lemma dc_transfer_command: "emits (dc_paired (Some False)) (hw_call (SpiWrite Cmd bs))"
  by (rule emits_hw_call) simp_all

lemma dc_transfer_data: "emits (dc_paired (Some True)) (hw_call (SpiWrite Dat bs))"
  by (rule emits_hw_call) simp_all

lemma dc_command: "emits (dc_paired None) (command cmd)"
proof -
  have "emits (dc_paired None) (seq [hw_call (SetDC False), hw_call (SpiWrite Cmd [cmd])])"
    by (rule dc_group) (rule dc_transfer_command)
  then have "emits (dc_paired None)
      (except_Exception (seq [hw_call (SetDC False), hw_call (SpiWrite Cmd [cmd])]))"
    by (rule emits_except_Exception)
  then show ?thesis
    by (auto simp add: emits_def command_def)
qed

lemma dc_to_bytes: "emits (dc_paired (Some True)) (to_bytes Dat l)"
  by (simp add: to_bytes_def emits_raise dc_transfer_data)

lemma dc_data: "emits (dc_paired None) (data v)"
proof -
  have "emits (dc_paired (Some True))
      (case v of DInt v \<Rightarrow> hw_call (SpiWrite Dat [v])
         | DBytes bs \<Rightarrow> hw_call (SpiWrite Dat (map uint bs))
         | DList l \<Rightarrow> to_bytes Dat l | DSeq l \<Rightarrow> to_bytes Dat l)"
    by (cases v) (simp_all add: dc_to_bytes dc_transfer_data)
  then have "emits (dc_paired None) (except_Exception (seq [hw_call (SetDC True),
      (case v of DInt v \<Rightarrow> hw_call (SpiWrite Dat [v])
         | DBytes bs \<Rightarrow> hw_call (SpiWrite Dat (map uint bs))
         | DList l \<Rightarrow> to_bytes Dat l | DSeq l \<Rightarrow> to_bytes Dat l)]))"
    by (intro emits_except_Exception dc_group)
  then show ?thesis
    by (auto simp add: emits_def data_def)
qed

lemma dc_sleep: "emits (dc_paired None) (sleep d)"
  by (rule emits_sleep) simp

lemma dc_init_display: "emits (dc_paired None) init_display"
  unfolding init_display_def
  by (rule emits_seq [OF dc_paired_closed]) (auto simp add: dc_command dc_data dc_sleep)

lemma dc_set_window: "emits (dc_paired None) (set_window xa ya xb yb)"
proof -
  have "emits (dc_paired None) (seq [command ST7789_CASET, data (DList a),
      command ST7789_RASET, data (DList b), command ST7789_RAMWR])" for a b
    by (rule emits_seq [OF dc_paired_closed]) (auto simp add: dc_command dc_data)
  then show ?thesis
    by (simp add: emits_def set_window_def Let_def)
qed

lemma dc_display_image: "emits (dc_paired None) (display_image pixels)"
  unfolding display_image_def Let_def
  by (rule emits_seq [OF dc_paired_closed]) (auto simp add: dc_set_window dc_data)

lemma dc_attempts_data: "dc_paired (Some True) (attempts fs (map (SpiWrite Dat) cs))"
proof (induction cs arbitrary: fs)
  case Nil
  then show ?case by simp
next
  case (Cons c cs)
  show ?case
  proof (cases fs)
    case Nil
    then show ?thesis using Cons [of "[]"] by simp
  next
    case (Cons f fs')
    then show ?thesis using Cons.IH [of fs'] by (cases f) simp_all
  qed
qed

lemma emits_spi_write:
  assumes "P []" and "\<And>fs. P (attempts fs (map (SpiWrite k) (chunks SPI_CHUNK_SIZE d)))"
  shows "emits P (spi_write k d)"
  using assms by (simp add: emits_def spi_write_def except_Exception_trace seq_hw_calls)

lemma dc_spi_write_data: "emits (dc_paired (Some True)) (spi_write Dat d)"
  by (rule emits_spi_write) (simp_all add: dc_attempts_data)

lemma dc_spi_write_command: "emits (dc_paired (Some False)) (spi_write Cmd [cmd])"
proof -
  have "dc_paired (Some False) (attempts fs [SpiWrite Cmd [cmd]])" for fs
  proof (cases fs)
    case Nil
    then show ?thesis by simp
  next
    case (Cons f fs')
    then show ?thesis by (cases f) simp_all
  qed
  then show ?thesis
    by (intro emits_spi_write) (simp_all add: chunks_single)
qed

lemma dc_write_command: "emits (dc_paired None) (write_command cmd)"
  unfolding write_command_def by (rule dc_group) (rule dc_spi_write_command)

lemma dc_write_data: "emits (dc_paired None) (write_data v)"
  unfolding write_data_def
  by (rule dc_group) (cases v; simp add: dc_spi_write_data emits_pass)

lemma dc_hw_rst: "emits (dc_paired None) (hw_call (SetRST l))"
  by (rule emits_hw_call) simp_all

lemma dc_reset_display: "emits (dc_paired None) reset_display"
  unfolding reset_display_def
  by (rule emits_seq [OF dc_paired_closed]) (auto simp add: dc_hw_rst dc_sleep)

lemma dc_init_display_webm: "emits (dc_paired None) init_display_webm"
  unfolding init_display_webm_def
  by (rule emits_seq [OF dc_paired_closed])
    (auto simp add: dc_reset_display dc_write_command dc_write_data dc_sleep)

lemma dc_set_address_window: "emits (dc_paired None) (set_address_window xa ya xb yb)"
  unfolding set_address_window_def
  by (rule emits_seq [OF dc_paired_closed]) (auto simp add: dc_write_command dc_write_data)

lemma dc_display_frame_rgb565: "emits (dc_paired None) (display_frame_rgb565 img)"
  unfolding display_frame_rgb565_def Let_def
  by (rule emits_seq [OF dc_paired_closed]) (auto simp add: dc_set_address_window dc_write_data)

section \<open>Closing the driver\<close>

lemma handles_hw_call: "handles (snd (hw_call c s)) = handles s"
  by (simp add: hw_call_def handles_def split: list.splits option.splits)


lemma handles_sleep: "handles (snd (sleep d s)) = handles s"
  by (simp add: sleep_def handles_def)

lemma snd_except_Exception: "snd (except_Exception p s) = snd (p s)"
  by (auto simp add: except_Exception_def split: prod.splits option.splits exn.splits)

lemma handles_seq:
  assumes "\<And>p s. p \<in> set ps \<Longrightarrow> handles (snd (p s)) = handles s"
  shows "handles (snd (seq ps s)) = handles s"
  using assms
proof (induction ps arbitrary: s)
  case Nil
  then show ?case by simp
next
  case (Cons p ps)
  obtain r s1 where p: "p s = (r, s1)" by (cases "p s")
  have "handles s1 = handles s"
    using Cons.prems [of p s] p by simp
  moreover have "handles (snd (seq ps s1)) = handles s1"
    using Cons by simp
  ultimately show ?case using p by (cases r) simp_all
qed

lemma handles_command: "handles (snd (command cmd s)) = handles s"
proof -
  have "handles (snd (seq [hw_call (SetDC False), hw_call (SpiWrite Cmd [cmd])] s)) = handles s"
    by (rule handles_seq) (auto simp add: handles_hw_call)
  then show ?thesis
    by (simp add: command_def snd_except_Exception)
qed

lemma handles_close_display_off: "handles (snd (close_display_off s)) = handles s"
proof -
  have "handles (snd (seq [command ST7789_DISPOFF, sleep (50 / 1000)] s)) = handles s"
    by (rule handles_seq) (auto simp add: handles_command handles_sleep)
  then show ?thesis
    by (simp add: close_display_off_def snd_except_Exception)
qed













section \<open>The playback loop\<close>

lemma write_data_bytes_nofault:
  "faults g = [] \<Longrightarrow> spi g \<Longrightarrow>
   write_data (DBytes bs) g =
     (None, g\<lparr>trace := trace g @ Done (SetDC True) #
        map (\<lambda>c. Done (SpiWrite Dat c)) (chunks SPI_CHUNK_SIZE (map uint bs))\<rparr>)"
  by (simp add: write_data_def hw_call_nofault spi_write_nofault)

lemma display_frame_nofault:
  "faults g = [] \<Longrightarrow> spi g \<Longrightarrow>
   display_frame_rgb565 img g = (None, g\<lparr>trace := trace g @ frame_events img\<rparr>)"
  by (simp add: display_frame_rgb565_def set_address_window_nofault write_data_bytes_nofault
      frame_events_def)

lemma sleeps_of_append: "sleeps_of (a @ b) = sleeps_of a @ sleeps_of b"
  by (induction a rule: sleeps_of.induct) simp_all

lemma commands_of_append: "commands_of (a @ b) = commands_of a @ commands_of b"
  by (induction a rule: commands_of.induct) simp_all

lemma sleeps_of_transfers: "sleeps_of (map (\<lambda>c. Done (f c)) cs) = []"
  by (induction cs) simp_all

lemma commands_of_data: "commands_of (map (\<lambda>c. Done (SpiWrite Dat c)) cs) = []"
  by (induction cs) simp_all

lemma sleeps_of_frame: "sleeps_of (frame_events img) = []"
  by (simp add: frame_events_def sleeps_of_append sleeps_of_transfers window_events_def)

lemma commands_of_frame: "commands_of (frame_events img) = [0x2A, 0x2B, 0x2C]"
  by (simp add: frame_events_def commands_of_append commands_of_data window_events_def)

lemma frame_size_pos: "0 < frame_size"
  by (simp add: frame_size_def WIDTH_def HEIGHT_def)

lemma loop_body_frame:
  assumes "in_read i = ReadBytes bs" "frame_size \<le> length bs" "frombytes_ok i"
    and "display_frame_rgb565 (rgb_pixels bs) g = (None, g1)"
  shows "loop_body i fc st l g =
     (Next (fc + 1) (if current_time i - l \<ge> 2 then current_time i else l),
      g1\<lparr>trace := trace g1 @ sleep_events (pacing_sleep i)\<rparr>)"
proof -
  have "bs \<noteq> []" using assms(2) frame_size_pos by auto
  then show ?thesis
    using assms
    by (auto simp add: loop_body_def Let_def sleep_def sleep_events_def pacing_sleep_def)
qed

lemma playback_loop_full_frames:
  assumes "faults g = []" "spi g" "list_all full_frame its"
  shows "playback_loop its fc st l g =
     (None, g\<lparr>trace := trace g @
        concat (map (\<lambda>i. frame_events (rgb_pixels (read_bytes i)) @ sleep_events (pacing_sleep i)) its)\<rparr>)"
  using assms
proof (induction its arbitrary: fc l g)
  case Nil
  then show ?case by simp
next
  case (Cons i its)
  from Cons.prems(3) obtain bs where i: "in_read i = ReadBytes bs" "frame_size \<le> length bs"
      "frombytes_ok i"
    by (auto simp add: full_frame_def split: read_result.splits)
  let ?g1 = "g\<lparr>trace := trace g @ frame_events (rgb_pixels bs)\<rparr>"
  let ?g2 = "?g1\<lparr>trace := trace ?g1 @ sleep_events (pacing_sleep i)\<rparr>"
  have b: "loop_body i fc st l g =
      (Next (fc + 1) (if current_time i - l \<ge> 2 then current_time i else l), ?g2)"
    by (rule loop_body_frame [OF i]) (rule display_frame_nofault [OF Cons.prems(1,2)])
  have "playback_loop its (fc + 1) st (if current_time i - l \<ge> 2 then current_time i else l) ?g2 =
      (None, ?g2\<lparr>trace := trace ?g2 @
        concat (map (\<lambda>i. frame_events (rgb_pixels (read_bytes i)) @ sleep_events (pacing_sleep i)) its)\<rparr>)"
    using Cons.prems by (intro Cons.IH) simp_all
  then show ?case
    using b i by (simp add: read_bytes_def)
qed

lemma sleeps_of_pacing:
  "sleeps_of (concat (map (\<lambda>i. frame_events (f i) @ sleep_events (pacing_sleep i)) its)) =
     filter (\<lambda>d. 0 < d) (map pacing_sleep its)"
  by (induction its) (simp_all add: sleeps_of_append sleeps_of_frame sleep_events_def)

lemma commands_of_pacing:
  "commands_of (concat (map (\<lambda>i. frame_events (f i) @ sleep_events (pacing_sleep i)) its)) =
     concat (map (\<lambda>i. [0x2A, 0x2B, 0x2C]) its)"
  by (induction its) (simp_all add: commands_of_append commands_of_frame sleep_events_def)

section \<open>The session\<close>

lemma loop_body_nofault:
  assumes "faults g = []" "spi g"
  shows "loop_body i fc st l g =
     (case in_read i of
        ReadRaises e \<Rightarrow> (if e = KeyboardInterrupt then Propagate e else Break, g)
      | ReadBytes bs \<Rightarrow>
          if bs = [] \<or> length bs < frame_size then (Break, g)
          else if \<not> frombytes_ok i then (Continue, g)
          else (Next (fc + 1) (if current_time i - l \<ge> 2 then current_time i else l),
                g\<lparr>trace := trace g @ frame_events (rgb_pixels bs) @ sleep_events (pacing_sleep i)\<rparr>))"
  using assms
  by (auto simp add: loop_body_def display_frame_nofault Let_def sleep_def sleep_events_def
      pacing_sleep_def split: read_result.splits)

lemma playback_loop_nofault:
  assumes "faults g = []" "spi g"
  shows "playback_loop its fc st l g = (loop_result its, g\<lparr>trace := trace g @ loop_events its\<rparr>)"
  using assms
proof (induction its arbitrary: fc l g)
  case Nil
  then show ?case by simp
next
  case (Cons i its)
  show ?case
  proof (cases "in_read i")
    case (ReadRaises e)
    then show ?thesis using Cons.prems by (simp add: loop_body_nofault)
  next
    case (ReadBytes bs)
    show ?thesis
    proof (cases "bs = [] \<or> length bs < frame_size")
      case True
      then show ?thesis using Cons.prems ReadBytes by (auto simp add: loop_body_nofault)
    next
      case short: False
      show ?thesis
      proof (cases "frombytes_ok i")
        case False
        then show ?thesis
          using Cons.prems ReadBytes short Cons.IH [of g fc l] by (simp add: loop_body_nofault)
      next
        case True
        let ?g = "g\<lparr>trace := trace g @ frame_events (rgb_pixels bs) @ sleep_events (pacing_sleep i)\<rparr>"
        have "playback_loop its (fc + 1) st (if current_time i - l \<ge> 2 then current_time i else l) ?g =
            (loop_result its, ?g\<lparr>trace := trace ?g @ loop_events its\<rparr>)"
          using Cons.prems by (intro Cons.IH) simp_all
        then show ?thesis
          using Cons.prems ReadBytes short True by (simp add: loop_body_nofault)
      qed
    qed
  qed
qed

lemma extract_frames_nofault:
  "faults g = [] \<Longrightarrow>
   extract_frames alive g =
     (None, g\<lparr>trace := trace g @ [Done Popen, Sleep (1 / 10)], ffmpeg_proc := alive\<rparr>)"
  by (simp add: extract_frames_def except_Exception_def hw_call_nofault sleep_def)

lemma teardown_calls_Nil: "teardown_calls [] = []"
  by (simp add: teardown_calls_def)

lemma teardown_calls_Cons:
  "teardown_calls (e # es) = (if is_teardown e then e # teardown_calls es else teardown_calls es)"
  by (simp add: teardown_calls_def)

lemma teardown_calls_append: "teardown_calls (a @ b) = teardown_calls a @ teardown_calls b"
  by (simp add: teardown_calls_def)

lemma teardown_calls_transfers: "teardown_calls (map (\<lambda>c. Done (SpiWrite k c)) cs) = []"
  by (induction cs) (simp_all add: teardown_calls_def teardown_call_def)

lemma teardown_calls_frame: "teardown_calls (frame_events img) = []"
  by (simp add: frame_events_def teardown_calls_append teardown_calls_transfers
      teardown_calls_Cons teardown_calls_Nil teardown_call_def window_events_def)

lemma teardown_calls_sleep: "teardown_calls (sleep_events d) = []"
  by (simp add: teardown_calls_Cons teardown_calls_Nil sleep_events_def)

lemma teardown_calls_loop: "teardown_calls (loop_events its) = []"
  by (induction its)
    (simp_all add: teardown_calls_append teardown_calls_frame teardown_calls_sleep
      teardown_calls_Nil split: read_result.splits)

lemma teardown_calls_startup: "teardown_calls startup_events = []"
  by (simp add: startup_events_def teardown_calls_append teardown_calls_frame
      teardown_calls_Cons teardown_calls_Nil teardown_call_def)

lemma stop_ffmpeg_nofault:
  "faults g = [] \<Longrightarrow>
   stop_ffmpeg running g =
     (None, g\<lparr>trace := trace g @ (if ffmpeg_proc g \<and> running then stop_events else [])\<rparr>)"
  by (simp add: stop_ffmpeg_def wait_or_kill_def hw_call_nofault stop_events_def)

lemma play_video_nofault:
  assumes "faults g = []" "is_file env"
  shows "emitted (play_video env) g =
     startup_events @
     (if alive_after_start env then loop_events (reads env) else []) @
     [Done GpioRelease] @
     (if alive_after_start env \<and> still_running env then stop_events else []) @
     [Done SpiClose]"
  using assms
  by (simp add: play_video_def emitted_def try_finally_def except_all_def with_request_lines_def
      hw_call_nofault init_webm_nofault display_frame_nofault extract_frames_nofault
      playback_loop_nofault cleanup_def stop_ffmpeg_nofault close_spi_global_def
      startup_events_def split: option.splits)

lemma stop_ffmpeg_kill:
  "ffmpeg_proc g \<Longrightarrow> faults g = [None, Some TimeoutExpired] \<Longrightarrow>
   emitted (stop_ffmpeg True) g =
     [Done Terminate, Failed Wait, Done Kill, Done CloseStdout, Done CloseStderr]"
  by (simp add: stop_ffmpeg_def wait_or_kill_def hw_call_def emitted_def)

section \<open>The cleanup of the player keeps its variables\<close>














section \<open>The pixel stream of the two display paths\<close>

lemma data_bytes_chunks: "data_bytes (map (\<lambda>c. Done (SpiWrite Dat c)) cs) = concat cs"
  by (induction cs) simp_all

lemma pixel_stream_window:
  "pixel_stream (window_events xa ya xb yb @ es) = data_bytes es"
  by (simp add: pixel_stream_def window_events_def)

lemma data_bytes_window:
  "data_bytes (window_events xa ya xb yb @ es) = hi_lo xa @ hi_lo xb @ hi_lo ya @ hi_lo yb @ data_bytes es"
  by (simp add: window_events_def)

lemma commands_of_window: "commands_of (window_events xa ya xb yb @ es) = [0x2A, 0x2B, 0x2C] @ commands_of es"
  by (simp add: window_events_def)

lemma emitted_display_image:
  "faults self = [] \<Longrightarrow> self_spi self \<Longrightarrow> self_dc_request self \<Longrightarrow>
   emitted (display_image pixels) self =
     window_events (clip 0 (self_width self)) (clip 0 (self_height self))
       (clip (self_width self - 1) (self_width self)) (clip (self_height self - 1) (self_height self)) @
     [Done (SetDC True), Done (SpiWrite Dat (map uint (pixel_bytes_v4 pixels)))]"
  by (simp add: emitted_def display_image_nofault)

lemma emitted_display_frame:
  "faults g = [] \<Longrightarrow> spi g \<Longrightarrow>
   emitted (display_frame_rgb565 img) g =
     window_events 0 0 (WIDTH - 1) (HEIGHT - 1) @
     Done (SetDC True) #
     map (\<lambda>c. Done (SpiWrite Dat c)) (chunks SPI_CHUNK_SIZE (map uint (pixel_bytes_webm img)))"
  by (simp add: emitted_def display_frame_nofault frame_events_def)

lemma chunks_uint_bytes: "concat (chunks SPI_CHUNK_SIZE xs) = xs"
  by (rule chunks_concat) (simp add: SPI_CHUNK_SIZE_def)

lemma pixel_bytes_agree: "pixel_bytes_webm pixels = pixel_bytes_v4 pixels"
  by (simp add: pixel_bytes_v4_be pixel_bytes_webm_def rgb565_v4_webm)

section \<open>The claims\<close>

text \<open>
  C1 (as amended). With the handles held, no call failing and a panel of 1 to 65536
  pixels each way, the window that \<^verbatim>\<open>ST7789.set_window\<close> puts on the wire is the
  request with each coordinate clipped on its own into the panel: every corner lies in
  \<open>[0, width - 1]\<close> or \<open>[0, height - 1]\<close>, and the corners are in order whenever the
  requested ones are. \<^verbatim>\<open>set_address_window\<close> of the video player does not clip: it puts
  the low 16 bits of each requested coordinate on the wire.
\<close>

theorem set_window_clipped:
  "(faults self = [] \<and> self_spi self \<and> self_dc_request self \<and>
    1 \<le> self_width self \<and> self_width self \<le> 65536 \<and>
    1 \<le> self_height self \<and> self_height self \<le> 65536 \<longrightarrow>
      (let w = self_width self; h = self_height self;
           rxb = (case xb of None \<Rightarrow> w - 1 | Some v \<Rightarrow> v);
           ryb = (case yb of None \<Rightarrow> h - 1 | Some v \<Rightarrow> v);
           win = ((clip xa w, clip rxb w), (clip ya h, clip ryb h))
       in wire_window (emitted (set_window xa ya xb yb) self) = Some win \<and>
          in_panel w h win \<and>
          (xa \<le> rxb \<longrightarrow> clip xa w \<le> clip rxb w) \<and>
          (ya \<le> ryb \<longrightarrow> clip ya h \<le> clip ryb h))) \<and>
   (faults g = [] \<and> spi g \<longrightarrow>
      wire_window (emitted (set_address_window ca ra cb rb) g) =
        Some ((ca mod 65536, cb mod 65536), (ra mod 65536, rb mod 65536)))"
proof (intro conjI impI)
  assume h: "faults self = [] \<and> self_spi self \<and> self_dc_request self \<and>
    1 \<le> self_width self \<and> self_width self \<le> 65536 \<and>
    1 \<le> self_height self \<and> self_height self \<le> 65536"
  have small: "clip v n mod 65536 = clip v n" if "1 \<le> n" "n \<le> 65536" for v n
    using clip_range [OF that(1), of v] that(2) by simp
  have "emitted (set_window xa ya xb yb) self =
      window_events (clip xa (self_width self)) (clip ya (self_height self))
        (clip (case xb of None \<Rightarrow> self_width self - 1 | Some v \<Rightarrow> v) (self_width self))
        (clip (case yb of None \<Rightarrow> self_height self - 1 | Some v \<Rightarrow> v) (self_height self))"
    using h set_window_nofault [of self xa ya xb yb] by (simp add: emitted_eq)
  then show "let w = self_width self; h = self_height self;
           rxb = (case xb of None \<Rightarrow> w - 1 | Some v \<Rightarrow> v);
           ryb = (case yb of None \<Rightarrow> h - 1 | Some v \<Rightarrow> v);
           win = ((clip xa w, clip rxb w), (clip ya h, clip ryb h))
       in wire_window (emitted (set_window xa ya xb yb) self) = Some win \<and>
          in_panel w h win \<and>
          (xa \<le> rxb \<longrightarrow> clip xa w \<le> clip rxb w) \<and>
          (ya \<le> ryb \<longrightarrow> clip ya h \<le> clip ryb h)"
    using h by (simp add: Let_def wire_window_events small in_panel_def clip_range clip_less clip_mono)
next
  assume "faults g = [] \<and> spi g"
  then have "emitted (set_address_window ca ra cb rb) g = window_events ca ra cb rb"
    using set_address_window_nofault [of g ca ra cb rb] by (simp add: emitted_eq)
  then show "wire_window (emitted (set_address_window ca ra cb rb) g) =
        Some ((ca mod 65536, cb mod 65536), (ra mod 65536, rb mod 65536))"
    by (simp add: wire_window_events)
qed

theorem set_window_clipped_witness:
  "wire_window (emitted (set_window 100 0 (Some 500) None) panel0) = Some ((100, 319), (0, 239)) \<and>
   in_panel 320 240 ((100, 319), (0, 239)) \<and>
   wire_window (emitted (set_address_window 0 0 (WIDTH - 1) (HEIGHT - 1)) player0) =
     Some ((0, 319), (0, 239))"
  using set_window_clipped [where self = panel0 and xa = 100 and ya = 0 and xb = "Some 500"
      and yb = None and g = player0 and ca = 0 and ra = 0 and cb = "WIDTH - 1"
      and rb = "HEIGHT - 1"]
  by (simp add: panel0_def player0_def clip_def WIDTH_def HEIGHT_def Let_def)

text \<open>
  C1 as stated fails: \<^verbatim>\<open>set_window(100, 0, 50, 10)\<close> on a 320 by 240 panel puts the
  inverted column range 100..50 on the wire, and \<^verbatim>\<open>set_address_window(400, 0, 500, 10)\<close>
  puts columns 400..500 there, outside the panel.
\<close>

theorem window_order_counterexample:
  "wire_window (emitted (set_window 100 0 (Some 50) (Some 10)) panel0) = Some ((100, 50), (0, 10)) \<and>
   \<not> window_ok 320 240 ((100, 50), (0, 10)) \<and>
   wire_window (emitted (set_address_window 400 0 500 10) player0) = Some ((400, 500), (0, 10)) \<and>
   \<not> window_ok 320 240 ((400, 500), (0, 10))"
proof -
  have "emitted (set_window 100 0 (Some 50) (Some 10)) panel0 = window_events 100 0 50 10"
    by (rule emitted_eq, subst set_window_nofault) (simp_all add: panel0_def clip_def)
  moreover have "emitted (set_address_window 400 0 500 10) player0 = window_events 400 0 500 10"
    by (rule emitted_eq, rule set_address_window_nofault) (simp_all add: player0_def)
  ultimately show ?thesis
    by (simp add: wire_window_events window_ok_def)
qed

text \<open>
  C2. For every 8-bit channel triple the conversion of \<^verbatim>\<open>display_image\<close> gives the
  16-bit value \<open>((r & 0xF8) << 8) | ((g & 0xFC) << 3) | ((b & 0xF8) >> 3)\<close>, a function of
  the three channels alone; (0xF8, 0xFC, 0xF8) gives 0xFFFF and (0, 0, 0) gives 0; every
  pixel goes out high byte first; and the data transfer of \<^verbatim>\<open>display_image\<close> carries
  exactly these bytes after the three window commands.
\<close>

theorem display_image_pixel_conversion:
  "uint (rgb565_v4 (r, g, b)) =
     push_bit 8 (uint r AND 0xF8) OR push_bit 3 (uint g AND 0xFC) OR drop_bit 3 (uint b AND 0xF8) \<and>
   rgb565_v4 (0xF8, 0xFC, 0xF8) = 0xFFFF \<and>
   rgb565_v4 (0x00, 0x00, 0x00) = 0x0000 \<and>
   pixel_bytes_v4 pixels =
     concat (map (\<lambda>p. [ucast (drop_bit 8 (rgb565_v4 p)), ucast (rgb565_v4 p)]) pixels) \<and>
   (faults self = [] \<and> self_spi self \<and> self_dc_request self \<longrightarrow>
      (\<exists>window. emitted (display_image pixels) self =
         window @ [Done (SetDC True), Done (SpiWrite Dat (map uint (pixel_bytes_v4 pixels)))] \<and>
         commands_of window = [0x2A, 0x2B, 0x2C]))"
proof (intro conjI impI)
  show "uint (rgb565_v4 (r, g, b)) =
     push_bit 8 (uint r AND 0xF8) OR push_bit 3 (uint g AND 0xFC) OR drop_bit 3 (uint b AND 0xF8)"
    by (rule uint_rgb565_v4)
  show "rgb565_v4 (0xF8, 0xFC, 0xF8) = 0xFFFF" "rgb565_v4 (0x00, 0x00, 0x00) = 0x0000"
    by (simp_all add: rgb565_v4_def)
  show "pixel_bytes_v4 pixels =
     concat (map (\<lambda>p. [ucast (drop_bit 8 (rgb565_v4 p)), ucast (rgb565_v4 p)]) pixels)"
    by (simp add: pixel_bytes_v4_be tobytes_be_def)
next
  assume "faults self = [] \<and> self_spi self \<and> self_dc_request self"
  then have "emitted (display_image pixels) self =
     window_events (clip 0 (self_width self)) (clip 0 (self_height self))
       (clip (self_width self - 1) (self_width self)) (clip (self_height self - 1) (self_height self)) @
     [Done (SetDC True), Done (SpiWrite Dat (map uint (pixel_bytes_v4 pixels)))]"
    using display_image_nofault [of self pixels] by (simp add: emitted_eq)
  moreover have "commands_of (window_events a0 b0 a1 b1) = [0x2A, 0x2B, 0x2C]" for a0 b0 a1 b1
    by (simp add: window_events_def)
  ultimately show "\<exists>window. emitted (display_image pixels) self =
         window @ [Done (SetDC True), Done (SpiWrite Dat (map uint (pixel_bytes_v4 pixels)))] \<and>
         commands_of window = [0x2A, 0x2B, 0x2C]"
    by blast
qed

theorem display_image_pixel_conversion_witness:
  "pixel_bytes_v4 [(0xFF, 0, 0), (0, 0xFF, 0), (0, 0, 0)] = [0xF8, 0x00, 0x07, 0xE0, 0x00, 0x00] \<and>
   (\<exists>window. emitted (display_image [(0xFF, 0, 0), (0, 0xFF, 0), (0, 0, 0)]) panel0 =
      window @ [Done (SetDC True), Done (SpiWrite Dat [0xF8, 0x00, 0x07, 0xE0, 0x00, 0x00])] \<and>
      commands_of window = [0x2A, 0x2B, 0x2C])"
proof -
  have b: "pixel_bytes_v4 [(0xFF, 0, 0), (0, 0xFF, 0), (0, 0, 0)] = [0xF8, 0x00, 0x07, 0xE0, 0x00, 0x00]"
    by (simp add: pixel_bytes_v4_be tobytes_be_def rgb565_v4_def)
  show ?thesis
    using display_image_pixel_conversion [where pixels = "[(0xFF, 0, 0), (0, 0xFF, 0), (0, 0, 0)]"
      and self = panel0 and r = 0 and g = 0 and b = 0]
    by (simp add: b panel0_def)
qed

text \<open>
  C3. Whatever the handles and whichever calls fail, in the events that the init
  sequence, the window setting and the image display of either script add to the trace,
  every transfer comes right after the write that sets the DC line to its level (low for
  a command byte, high for data), or, as a further chunk of one data payload, right after
  the previous chunk of that payload; a transfer is a command byte or data bytes, never
  both.
\<close>

theorem dc_line_pairs_every_transfer:
  "dc_paired None (emitted init_display self) \<and>
   dc_paired None (emitted (set_window xa ya xb yb) self) \<and>
   dc_paired None (emitted (display_image pixels) self) \<and>
   dc_paired None (emitted init_display_webm g) \<and>
   dc_paired None (emitted (set_address_window ca ra cb rb) g) \<and>
   dc_paired None (emitted (display_frame_rgb565 img) g)"
  by (intro conjI emitsD dc_init_display dc_set_window dc_display_image dc_init_display_webm
      dc_set_address_window dc_display_frame_rgb565)

theorem dc_line_pairs_every_transfer_witness:
  "dc_paired None (emitted init_display panel0) \<and>
   commands_of (emitted init_display panel0) = [0x01, 0x11, 0x36, 0x3A, 0x21, 0x13, 0x29] \<and>
   dc_paired None (emitted (display_frame_rgb565 [(0, 0, 0)])
     (player0\<lparr>faults := [None, None, Some OSError]\<rparr>)) \<and>
   \<not> dc_paired None [Done (SetDC True), Done (SpiWrite Cmd [0x2C])] \<and>
   \<not> dc_paired None [Done (SetDC False), Done (SpiWrite Cmd [0x2A]), Done (SpiWrite Dat [0])]"
proof -
  have "emitted init_display panel0 =
        [Done (SetDC False), Done (SpiWrite Cmd [0x01]), Sleep (3 / 20),
         Done (SetDC False), Done (SpiWrite Cmd [0x11]), Sleep (1 / 2),
         Done (SetDC False), Done (SpiWrite Cmd [0x36]), Done (SetDC True), Done (SpiWrite Dat [0x60]),
         Done (SetDC False), Done (SpiWrite Cmd [0x3A]), Done (SetDC True), Done (SpiWrite Dat [0x55]),
         Done (SetDC False), Done (SpiWrite Cmd [0x21]),
         Done (SetDC False), Done (SpiWrite Cmd [0x13]), Sleep (1 / 100),
         Done (SetDC False), Done (SpiWrite Cmd [0x29]), Sleep (1 / 10)]"
    by (rule emitted_eq, rule init_nofault) (simp_all add: panel0_def)
  then have "commands_of (emitted init_display panel0) = [0x01, 0x11, 0x36, 0x3A, 0x21, 0x13, 0x29]"
    by simp
  then show ?thesis
    using dc_line_pairs_every_transfer [where self = panel0 and img = "[(0, 0, 0)]"
        and g = "player0\<lparr>faults := [None, None, Some OSError]\<rparr>"]
    by simp
qed

text \<open>
  C4 (as amended). \<^verbatim>\<open>ST7789.reset\<close>, with the reset line held and no call failing, makes
  exactly three level writes on the reset line, high (then 50 ms), low (then 50 ms), high
  (then 150 ms), and nothing else; without the line handle it does nothing.
  \<^verbatim>\<open>reset_display\<close> of the video player makes two level writes, low (then 100 ms) and
  high (then 100 ms).
\<close>

theorem reset_sequence:
  "(faults self = [] \<and> self_rst_request self \<longrightarrow>
      emitted reset self =
        [Done (SetRST True), Sleep (50 / 1000), Done (SetRST False), Sleep (50 / 1000),
         Done (SetRST True), Sleep (150 / 1000)]) \<and>
   (\<not> self_rst_request self \<longrightarrow> emitted reset self = []) \<and>
   (faults g = [] \<longrightarrow>
      emitted reset_display g =
        [Done (SetRST False), Sleep (1 / 10), Done (SetRST True), Sleep (1 / 10)])"
  by (auto simp add: reset_nofault reset_display_nofault emitted_eq) (simp add: reset_def emitted_def)

theorem reset_sequence_witness:
  "emitted reset panel0 =
     [Done (SetRST True), Sleep (50 / 1000), Done (SetRST False), Sleep (50 / 1000),
      Done (SetRST True), Sleep (150 / 1000)] \<and>
   emitted reset (panel0\<lparr>self_rst_request := False\<rparr>) = [] \<and>
   emitted reset_display player0 =
     [Done (SetRST False), Sleep (1 / 10), Done (SetRST True), Sleep (1 / 10)]"
  using reset_sequence [of panel0 player0] reset_sequence [of "panel0\<lparr>self_rst_request := False\<rparr>" player0]
  by (simp add: panel0_def player0_def)

text \<open>
  C4 as stated fails: \<^verbatim>\<open>reset_display\<close> writes low, high (two writes, not high, low,
  high), and \<^verbatim>\<open>ST7789.reset\<close> without its line handle writes nothing.
\<close>

theorem reset_three_writes_counterexample:
  "rst_levels (emitted reset_display player0) = [False, True] \<and>
   rst_levels (emitted reset_display player0) \<noteq> [True, False, True] \<and>
   rst_levels (emitted reset (panel0\<lparr>self_rst_request := False\<rparr>)) = []"
proof -
  have "emitted reset_display player0 =
      [Done (SetRST False), Sleep (1 / 10), Done (SetRST True), Sleep (1 / 10)]"
    by (rule emitted_eq, rule reset_display_nofault) (simp add: player0_def)
  moreover have "emitted reset (panel0\<lparr>self_rst_request := False\<rparr>) = []"
    by (simp add: reset_def emitted_def panel0_def)
  ultimately show ?thesis by simp
qed

text \<open>
  C5 (as amended). With the handles held and no call failing, \<^verbatim>\<open>ST7789.init_display\<close>
  sends software reset (then 150 ms), sleep-out (then 500 ms), the orientation byte
  (MADCTL 0x60), the pixel format (COLMOD 0x55), inversion on, normal display mode on
  (then 10 ms), display on (then 100 ms), in this order. \<^verbatim>\<open>init_display\<close> of the video
  player resets by the reset line, then sends sleep-out (then 120 ms), the pixel format,
  the orientation byte and display on (then 100 ms).
\<close>

theorem init_sequence:
  "(faults self = [] \<and> self_spi self \<and> self_dc_request self \<longrightarrow>
      emitted init_display self =
        [Done (SetDC False), Done (SpiWrite Cmd [0x01]), Sleep (150 / 1000),
         Done (SetDC False), Done (SpiWrite Cmd [0x11]), Sleep (500 / 1000),
         Done (SetDC False), Done (SpiWrite Cmd [0x36]), Done (SetDC True), Done (SpiWrite Dat [0x60]),
         Done (SetDC False), Done (SpiWrite Cmd [0x3A]), Done (SetDC True), Done (SpiWrite Dat [0x55]),
         Done (SetDC False), Done (SpiWrite Cmd [0x21]),
         Done (SetDC False), Done (SpiWrite Cmd [0x13]), Sleep (10 / 1000),
         Done (SetDC False), Done (SpiWrite Cmd [0x29]), Sleep (100 / 1000)]) \<and>
   (faults g = [] \<and> spi g \<longrightarrow>
      emitted init_display_webm g =
        [Done (SetRST False), Sleep (1 / 10), Done (SetRST True), Sleep (1 / 10),
         Done (SetDC False), Done (SpiWrite Cmd [0x11]), Sleep (12 / 100),
         Done (SetDC False), Done (SpiWrite Cmd [0x3A]), Done (SetDC True), Done (SpiWrite Dat [0x55]),
         Done (SetDC False), Done (SpiWrite Cmd [0x36]), Done (SetDC True), Done (SpiWrite Dat [0x60]),
         Done (SetDC False), Done (SpiWrite Cmd [0x29]), Sleep (1 / 10)])"
  by (auto simp add: init_nofault init_webm_nofault emitted_eq)

theorem init_sequence_witness:
  "emitted init_display panel0 =
        [Done (SetDC False), Done (SpiWrite Cmd [0x01]), Sleep (150 / 1000),
         Done (SetDC False), Done (SpiWrite Cmd [0x11]), Sleep (500 / 1000),
         Done (SetDC False), Done (SpiWrite Cmd [0x36]), Done (SetDC True), Done (SpiWrite Dat [0x60]),
         Done (SetDC False), Done (SpiWrite Cmd [0x3A]), Done (SetDC True), Done (SpiWrite Dat [0x55]),
         Done (SetDC False), Done (SpiWrite Cmd [0x21]),
         Done (SetDC False), Done (SpiWrite Cmd [0x13]), Sleep (10 / 1000),
         Done (SetDC False), Done (SpiWrite Cmd [0x29]), Sleep (100 / 1000)] \<and>
   emitted init_display_webm player0 =
        [Done (SetRST False), Sleep (1 / 10), Done (SetRST True), Sleep (1 / 10),
         Done (SetDC False), Done (SpiWrite Cmd [0x11]), Sleep (12 / 100),
         Done (SetDC False), Done (SpiWrite Cmd [0x3A]), Done (SetDC True), Done (SpiWrite Dat [0x55]),
         Done (SetDC False), Done (SpiWrite Cmd [0x36]), Done (SetDC True), Done (SpiWrite Dat [0x60]),
         Done (SetDC False), Done (SpiWrite Cmd [0x29]), Sleep (1 / 10)]"
  using init_sequence [of panel0 player0]
  by (simp add: panel0_def player0_def)

text \<open>
  C5 as stated fails: \<^verbatim>\<open>ST7789.init_display\<close> sends the orientation byte (0x36) before
  the pixel format (0x3A), and the video player's sequence has no software reset, no
  inversion and no normal-display-mode command.
\<close>

theorem init_order_counterexample:
  "commands_of (emitted init_display panel0) = [0x01, 0x11, 0x36, 0x3A, 0x21, 0x13, 0x29] \<and>
   commands_of (emitted init_display panel0) \<noteq> [0x01, 0x11, 0x3A, 0x36, 0x21, 0x13, 0x29] \<and>
   commands_of (emitted init_display_webm player0) = [0x11, 0x3A, 0x36, 0x29]"
proof -
  have "emitted init_display panel0 =
        [Done (SetDC False), Done (SpiWrite Cmd [0x01]), Sleep (3 / 20),
         Done (SetDC False), Done (SpiWrite Cmd [0x11]), Sleep (1 / 2),
         Done (SetDC False), Done (SpiWrite Cmd [0x36]), Done (SetDC True), Done (SpiWrite Dat [0x60]),
         Done (SetDC False), Done (SpiWrite Cmd [0x3A]), Done (SetDC True), Done (SpiWrite Dat [0x55]),
         Done (SetDC False), Done (SpiWrite Cmd [0x21]),
         Done (SetDC False), Done (SpiWrite Cmd [0x13]), Sleep (1 / 100),
         Done (SetDC False), Done (SpiWrite Cmd [0x29]), Sleep (1 / 10)]"
    by (rule emitted_eq, rule init_nofault) (simp_all add: panel0_def)
  moreover have "emitted init_display_webm player0 =
        [Done (SetRST False), Sleep (1 / 10), Done (SetRST True), Sleep (1 / 10),
         Done (SetDC False), Done (SpiWrite Cmd [0x11]), Sleep (3 / 25),
         Done (SetDC False), Done (SpiWrite Cmd [0x3A]), Done (SetDC True), Done (SpiWrite Dat [0x55]),
         Done (SetDC False), Done (SpiWrite Cmd [0x36]), Done (SetDC True), Done (SpiWrite Dat [0x60]),
         Done (SetDC False), Done (SpiWrite Cmd [0x29]), Sleep (1 / 10)]"
    by (rule emitted_eq, rule init_webm_nofault) (simp_all add: player0_def)
  ultimately show ?thesis by simp
qed

text \<open>
  C6 (as amended). When the file exists and no library call fails, then whatever ends the
  playback loop (end of stream, a short read, a read error or an interrupt), the session
  ends with, in this order: one release of the GPIO lines (by the \<^verbatim>\<open>with\<close> statement),
  then, only if ffmpeg was started and is still running, one stop of it (terminate, wait,
  close both pipes), then one close of the bus; nothing before that is a teardown call.
  When the wait times out the stop is terminate, wait, kill, close both pipes. When the
  file does not exist nothing is done at all.
\<close>

theorem teardown_order:
  "(is_file env \<and> faults g = [] \<longrightarrow>
      (\<exists>before.
         emitted (play_video env) g =
           before @ [Done GpioRelease] @
           (if alive_after_start env \<and> still_running env
            then [Done Terminate, Done Wait, Done CloseStdout, Done CloseStderr] else []) @
           [Done SpiClose] \<and>
         teardown_calls before = [])) \<and>
   (ffmpeg_proc g \<and> faults g = [None, Some TimeoutExpired] \<longrightarrow>
      emitted (stop_ffmpeg True) g =
        [Done Terminate, Failed Wait, Done Kill, Done CloseStdout, Done CloseStderr]) \<and>
   (\<not> is_file env \<longrightarrow> emitted (play_video env) g = [])"
proof (intro conjI impI)
  assume h: "is_file env \<and> faults g = []"
  let ?before = "startup_events @ (if alive_after_start env then loop_events (reads env) else [])"
  have "emitted (play_video env) g =
      ?before @ [Done GpioRelease] @
      (if alive_after_start env \<and> still_running env
       then [Done Terminate, Done Wait, Done CloseStdout, Done CloseStderr] else []) @
      [Done SpiClose]"
    using h play_video_nofault [of g env] by (simp add: stop_events_def)
  moreover have "teardown_calls ?before = []"
    by (simp add: teardown_calls_append teardown_calls_startup teardown_calls_loop
        teardown_calls_Nil)
  ultimately show "\<exists>before.
         emitted (play_video env) g =
           before @ [Done GpioRelease] @
           (if alive_after_start env \<and> still_running env
            then [Done Terminate, Done Wait, Done CloseStdout, Done CloseStderr] else []) @
           [Done SpiClose] \<and>
         teardown_calls before = []"
    by blast
next
  assume "ffmpeg_proc g \<and> faults g = [None, Some TimeoutExpired]"
  then show "emitted (stop_ffmpeg True) g =
        [Done Terminate, Failed Wait, Done Kill, Done CloseStdout, Done CloseStderr]"
    by (simp add: stop_ffmpeg_kill)
next
  assume "\<not> is_file env"
  then show "emitted (play_video env) g = []"
    by (simp add: play_video_def emitted_def)
qed

theorem teardown_order_witness:
  "teardown_calls (emitted (play_video (session_of [] False)) (player0\<lparr>spi := False\<rparr>)) =
     [Done GpioRelease, Done SpiClose] \<and>
   emitted (stop_ffmpeg True)
     (player0\<lparr>ffmpeg_proc := True, faults := [None, Some TimeoutExpired]\<rparr>) =
     [Done Terminate, Failed Wait, Done Kill, Done CloseStdout, Done CloseStderr] \<and>
   emitted (play_video (session_of [] False\<lparr>is_file := False\<rparr>)) player0 = []"
proof -
  have 1: "teardown_calls (emitted (play_video (session_of [] False)) (player0\<lparr>spi := False\<rparr>)) =
     [Done GpioRelease, Done SpiClose]"
    using teardown_order [where env = "session_of [] False" and g = "player0\<lparr>spi := False\<rparr>"]
    by (auto simp add: session_of_def player0_def teardown_calls_append teardown_calls_Cons
        teardown_calls_Nil teardown_call_def)
  have 2: "emitted (stop_ffmpeg True)
     (player0\<lparr>ffmpeg_proc := True, faults := [None, Some TimeoutExpired]\<rparr>) =
     [Done Terminate, Failed Wait, Done Kill, Done CloseStdout, Done CloseStderr]"
    using teardown_order [where g = "player0\<lparr>ffmpeg_proc := True, faults := [None, Some TimeoutExpired]\<rparr>"]
    by (simp add: player0_def)
  have 3: "emitted (play_video (session_of [] False\<lparr>is_file := False\<rparr>)) player0 = []"
    using teardown_order [where env = "session_of [] False\<lparr>is_file := False\<rparr>" and g = player0]
    by (simp add: session_of_def)
  show ?thesis
    using 1 2 3 by simp
qed

text \<open>
  C6 as stated fails: in a session interrupted during the first read, with ffmpeg still
  running and no call failing, the GPIO lines are released before ffmpeg is stopped, not
  after.
\<close>

theorem teardown_order_counterexample:
  "teardown_calls (emitted (play_video (session_of [interrupted_pass] True))
     (player0\<lparr>spi := False\<rparr>)) =
     [Done GpioRelease, Done Terminate, Done Wait, Done CloseStdout, Done CloseStderr,
      Done SpiClose] \<and>
   teardown_calls (emitted (play_video (session_of [interrupted_pass] True))
     (player0\<lparr>spi := False\<rparr>)) \<noteq>
     [Done Terminate, Done Wait, Done CloseStdout, Done CloseStderr, Done GpioRelease,
      Done SpiClose]"
proof -
  have "emitted (play_video (session_of [interrupted_pass] True)) (player0\<lparr>spi := False\<rparr>) =
      startup_events @ [Done GpioRelease] @ stop_events @ [Done SpiClose]"
    by (subst play_video_nofault)
      (simp_all add: session_of_def player0_def interrupted_pass_def)
  then show ?thesis
    by (simp add: teardown_calls_append teardown_calls_startup teardown_calls_Cons
        teardown_calls_Nil teardown_call_def stop_events_def)
qed

text \<open>
  C7 (as amended). \<^verbatim>\<open>spi_write\<close> splits every payload into consecutive chunks of at most
  4096 bytes and writes them in the original order; the first chunk write that raises is
  the last one made (no later chunk, no retry). The error is printed and not surfaced:
  \<^verbatim>\<open>spi_write\<close> returns normally (only an interrupt passes through it).
\<close>

theorem spi_write_chunks:
  "concat (chunks SPI_CHUNK_SIZE d) = d \<and>
   list_all (\<lambda>c. length c \<le> 4096) (chunks SPI_CHUNK_SIZE d) \<and>
   (if spi g
    then emitted (spi_write k d) g =
           attempts (faults g) (map (SpiWrite k) (chunks SPI_CHUNK_SIZE d))
    else emitted (spi_write k d) g = []) \<and>
   (fst (spi_write k d g) = None \<or> fst (spi_write k d g) = Some KeyboardInterrupt)"
proof (intro conjI)
  show "concat (chunks SPI_CHUNK_SIZE d) = d"
    by (rule chunks_concat) (simp add: SPI_CHUNK_SIZE_def)
  show "list_all (\<lambda>c. length c \<le> 4096) (chunks SPI_CHUNK_SIZE d)"
    using chunks_length [of _ SPI_CHUNK_SIZE d] by (simp add: list_all_iff SPI_CHUNK_SIZE_def)
  show "if spi g
    then emitted (spi_write k d) g =
           attempts (faults g) (map (SpiWrite k) (chunks SPI_CHUNK_SIZE d))
    else emitted (spi_write k d) g = []"
    by (simp add: spi_write_def emitted_def except_Exception_trace seq_hw_calls)
  show "fst (spi_write k d g) = None \<or> fst (spi_write k d g) = Some KeyboardInterrupt"
    using except_Exception_result [of _ g] by (simp add: spi_write_def)
qed

theorem spi_write_chunks_witness:
  "chunks SPI_CHUNK_SIZE (replicate 10000 (7::int)) =
     [replicate 4096 7, replicate 4096 7, replicate 1808 7] \<and>
   emitted (spi_write Dat (replicate 10000 7)) (player0\<lparr>faults := [None, Some OSError]\<rparr>) =
     [Done (SpiWrite Dat (replicate 4096 7)), Failed (SpiWrite Dat (replicate 4096 7))] \<and>
   fst (spi_write Dat (replicate 10000 7) (player0\<lparr>faults := [None, Some OSError]\<rparr>)) = None"
proof -
  have c: "chunks SPI_CHUNK_SIZE (replicate 10000 (7::int)) =
     [replicate 4096 7, replicate 4096 7, replicate 1808 7]"
proof -
    have "[0 ..< 3] = [0, 1, 2::nat]"
      by (simp add: upt_rec)
    then show ?thesis
      by (simp add: chunks_def SPI_CHUNK_SIZE_def)
  qed
  have r: "fst (spi_write Dat (replicate 10000 7) (player0\<lparr>faults := [None, Some OSError]\<rparr>)) = None"
    by (simp add: spi_write_def c except_Exception_def hw_call_def player0_def)
  show ?thesis
    using spi_write_chunks [where d = "replicate 10000 7" and k = Dat
        and g = "player0\<lparr>faults := [None, Some OSError]\<rparr>"] r
    by (simp add: c player0_def)
qed

text \<open>
  C7 as stated fails: a one-byte write whose only chunk raises \<^verbatim>\<open>OSError\<close> returns
  normally, so no error reaches the caller.
\<close>

theorem spi_write_error_counterexample:
  "emitted (spi_write Dat [0]) (player0\<lparr>faults := [Some OSError]\<rparr>) = [Failed (SpiWrite Dat [0])] \<and>
   fst (spi_write Dat [0] (player0\<lparr>faults := [Some OSError]\<rparr>)) = None"
  by (simp add: spi_write_def emitted_def except_Exception_def hw_call_def player0_def chunks_single)

text \<open>
  C8. In a pass of the playback loop that displays a frame, the display is followed by
  one sleep of \<open>frame_interval - elapsed\<close> when that is positive and by no sleep
  otherwise, that is by a sleep of \<open>max(0, frame_interval - elapsed)\<close>, where
  \<open>frame_interval = 1 / 25\<close> and \<open>elapsed\<close> is the difference of the two clock readings
  of this pass; the frame count and the time of the last report do not enter. Over a whole
  run in which every pass reads a full frame and no call fails, every frame is displayed
  and the sleeps are exactly those of the single passes, in order: no pass makes up for an
  earlier one, and no frame is dropped. (Clock readings and durations are exact rationals
  in the model.)
\<close>

theorem frame_pacing:
  "(in_read i = ReadBytes bs \<and> frame_size \<le> length bs \<and> frombytes_ok i \<and>
    fst (display_frame_rgb565 (rgb_pixels bs) g) = None \<longrightarrow>
      fst (loop_body i fc st l g) =
        Next (fc + 1) (if current_time i - l \<ge> 2 then current_time i else l) \<and>
      trace (snd (loop_body i fc st l g)) =
        trace (snd (display_frame_rgb565 (rgb_pixels bs) g)) @ sleep_events (pacing_sleep i)) \<and>
   (faults g = [] \<and> spi g \<and> list_all full_frame its \<longrightarrow>
      fst (playback_loop its fc st l g) = None \<and>
      sleeps_of (emitted (playback_loop its fc st l) g) =
        filter (\<lambda>d. 0 < d) (map pacing_sleep its) \<and>
      commands_of (emitted (playback_loop its fc st l) g) =
        concat (map (\<lambda>i. [0x2A, 0x2B, 0x2C]) its)) \<and>
   frame_interval = 1 / 25"
proof (intro conjI impI)
  assume h: "in_read i = ReadBytes bs \<and> frame_size \<le> length bs \<and> frombytes_ok i \<and>
    fst (display_frame_rgb565 (rgb_pixels bs) g) = None"
  obtain g1 where d: "display_frame_rgb565 (rgb_pixels bs) g = (None, g1)"
    using h by (cases "display_frame_rgb565 (rgb_pixels bs) g") simp
  have b: "loop_body i fc st l g =
     (Next (fc + 1) (if current_time i - l \<ge> 2 then current_time i else l),
      g1\<lparr>trace := trace g1 @ sleep_events (pacing_sleep i)\<rparr>)"
    using h d by (intro loop_body_frame) simp_all
  show "fst (loop_body i fc st l g) =
        Next (fc + 1) (if current_time i - l \<ge> 2 then current_time i else l)"
    by (simp add: b)
  show "trace (snd (loop_body i fc st l g)) =
        trace (snd (display_frame_rgb565 (rgb_pixels bs) g)) @ sleep_events (pacing_sleep i)"
    by (simp add: b d)
next
  assume h: "faults g = [] \<and> spi g \<and> list_all full_frame its"
  have p: "playback_loop its fc st l g =
     (None, g\<lparr>trace := trace g @
        concat (map (\<lambda>i. frame_events (rgb_pixels (read_bytes i)) @ sleep_events (pacing_sleep i)) its)\<rparr>)"
    using h by (intro playback_loop_full_frames) simp_all
  have e: "emitted (playback_loop its fc st l) g =
      concat (map (\<lambda>i. frame_events (rgb_pixels (read_bytes i)) @ sleep_events (pacing_sleep i)) its)"
    by (simp add: emitted_def p)
  show "fst (playback_loop its fc st l g) = None"
    by (simp add: p)
  show "sleeps_of (emitted (playback_loop its fc st l) g) =
        filter (\<lambda>d. 0 < d) (map pacing_sleep its)"
    by (simp add: e sleeps_of_pacing)
  show "commands_of (emitted (playback_loop its fc st l) g) =
        concat (map (\<lambda>i. [0x2A, 0x2B, 0x2C]) its)"
    by (simp add: e commands_of_pacing)
next
  show "frame_interval = 1 / 25"
    by (simp add: frame_interval_def TARGET_FPS_def)
qed

theorem frame_pacing_witness:
  "trace (snd (loop_body (pass_at 0 (1 / 100)) 0 0 0 player0)) =
     trace (snd (display_frame_rgb565 (rgb_pixels (replicate frame_size 0)) player0)) @
     [Sleep (3 / 100)] \<and>
   sleeps_of (emitted
     (playback_loop [pass_at 0 (1 / 100), pass_at 1 (21 / 20), pass_at 2 (101 / 50)] 0 0 0) player0) =
     [3 / 100, 1 / 50] \<and>
   commands_of (emitted
     (playback_loop [pass_at 0 (1 / 100), pass_at 1 (21 / 20), pass_at 2 (101 / 50)] 0 0 0) player0) =
     [0x2A, 0x2B, 0x2C, 0x2A, 0x2B, 0x2C, 0x2A, 0x2B, 0x2C]"
proof -
  have d: "fst (display_frame_rgb565 (rgb_pixels (replicate frame_size 0)) player0) = None"
    by (subst display_frame_nofault) (simp_all add: player0_def)
  have f: "list_all full_frame [pass_at 0 (1 / 100), pass_at 1 (21 / 20), pass_at 2 (101 / 50)]"
    by (simp add: full_frame_def pass_at_def)
  have p: "pacing_sleep (pass_at 0 (1 / 100)) = 3 / 100" "pacing_sleep (pass_at 1 (21 / 20)) = 0"
    "pacing_sleep (pass_at 2 (101 / 50)) = 1 / 50"
    by (simp_all add: pacing_sleep_def pass_at_def frame_interval_def TARGET_FPS_def)
  have g: "faults player0 = []" "spi player0"
    by (simp_all add: player0_def)
  show ?thesis
    using frame_pacing [where i = "pass_at 0 (1 / 100)" and bs = "replicate frame_size 0"
        and g = player0 and fc = 0 and st = 0 and l = 0
        and its = "[pass_at 0 (1 / 100), pass_at 1 (21 / 20), pass_at 2 (101 / 50)]"] d f g
    by (simp add: p sleep_events_def) (simp add: pass_at_def)
qed




text \<open>
  C10. For every 8-bit channel triple the masked-shift conversion of
  \<^verbatim>\<open>display_st7789_v4.py\<close> and the shift-first conversion of \<^verbatim>\<open>webm_video_st7789.py\<close>
  give the same 16-bit value, and for every pixel array the two scripts build the same
  byte string (high byte of each pixel first). With the handles held and no call
  failing, \<^verbatim>\<open>display_image\<close> and \<^verbatim>\<open>display_frame_rgb565\<close> put the same pixel bytes on the
  bus after the memory-write opcode, namely this byte string, the player in chunks and
  the driver in one transfer; on a panel of the player's size (320 by 240) the two paths
  send the same opcodes and the same data bytes altogether.
\<close>

theorem rgb565_paths_agree:
  "rgb565_v4 (r, g, b) = rgb565_webm (r, g, b) \<and>
   pixel_bytes_v4 pixels = pixel_bytes_webm pixels \<and>
   pixel_bytes_webm pixels =
     concat (map (\<lambda>p. [ucast (drop_bit 8 (rgb565_webm p)), ucast (rgb565_webm p)]) pixels) \<and>
   concat (chunks SPI_CHUNK_SIZE (map uint (pixel_bytes_webm pixels))) =
     map uint (pixel_bytes_v4 pixels) \<and>
   (faults self = [] \<and> self_spi self \<and> self_dc_request self \<and> faults player = [] \<and> spi player \<longrightarrow>
      pixel_stream (emitted (display_image pixels) self) = map uint (pixel_bytes_v4 pixels) \<and>
      pixel_stream (emitted (display_frame_rgb565 pixels) player) = map uint (pixel_bytes_v4 pixels) \<and>
      pixel_stream (emitted (display_image pixels) self) =
        pixel_stream (emitted (display_frame_rgb565 pixels) player) \<and>
      (self_width self = WIDTH \<and> self_height self = HEIGHT \<longrightarrow>
         data_bytes (emitted (display_image pixels) self) =
           data_bytes (emitted (display_frame_rgb565 pixels) player) \<and>
         commands_of (emitted (display_image pixels) self) =
           commands_of (emitted (display_frame_rgb565 pixels) player)))"
proof (intro conjI impI)
  show "rgb565_v4 (r, g, b) = rgb565_webm (r, g, b)"
    by (rule rgb565_v4_webm)
  show "pixel_bytes_v4 pixels = pixel_bytes_webm pixels"
    by (simp add: pixel_bytes_agree)
  show "pixel_bytes_webm pixels =
     concat (map (\<lambda>p. [ucast (drop_bit 8 (rgb565_webm p)), ucast (rgb565_webm p)]) pixels)"
    by (simp add: pixel_bytes_webm_def tobytes_be_def)
  show "concat (chunks SPI_CHUNK_SIZE (map uint (pixel_bytes_webm pixels))) =
     map uint (pixel_bytes_v4 pixels)"
    by (simp add: chunks_uint_bytes pixel_bytes_agree)
next
  assume h: "faults self = [] \<and> self_spi self \<and> self_dc_request self \<and> faults player = [] \<and> spi player"
  have v4: "pixel_stream (emitted (display_image pixels) self) = map uint (pixel_bytes_v4 pixels)"
    using h by (simp add: emitted_display_image pixel_stream_window)
  have webm: "pixel_stream (emitted (display_frame_rgb565 pixels) player) = map uint (pixel_bytes_v4 pixels)"
    using h
    by (simp add: emitted_display_frame pixel_stream_window data_bytes_chunks chunks_uint_bytes
        pixel_bytes_agree)
  show "pixel_stream (emitted (display_image pixels) self) = map uint (pixel_bytes_v4 pixels)"
    by (rule v4)
  show "pixel_stream (emitted (display_frame_rgb565 pixels) player) = map uint (pixel_bytes_v4 pixels)"
    by (rule webm)
  show "pixel_stream (emitted (display_image pixels) self) =
        pixel_stream (emitted (display_frame_rgb565 pixels) player)"
    by (simp add: v4 webm)
  assume s: "self_width self = WIDTH \<and> self_height self = HEIGHT"
  have c: "clip 0 WIDTH = 0" "clip 0 HEIGHT = 0" "clip (WIDTH - 1) WIDTH = WIDTH - 1"
    "clip (HEIGHT - 1) HEIGHT = HEIGHT - 1"
    by (simp_all add: clip_def WIDTH_def HEIGHT_def)
  show "data_bytes (emitted (display_image pixels) self) =
           data_bytes (emitted (display_frame_rgb565 pixels) player)"
    using h s
    by (simp add: emitted_display_image emitted_display_frame data_bytes_window c
        data_bytes_chunks chunks_uint_bytes pixel_bytes_agree)
  show "commands_of (emitted (display_image pixels) self) =
           commands_of (emitted (display_frame_rgb565 pixels) player)"
    using h s
    by (simp add: emitted_display_image emitted_display_frame commands_of_window c
        commands_of_data)
qed

theorem rgb565_paths_agree_witness:
  "pixel_stream (emitted (display_image [(0xFF, 0, 0), (0, 0xFF, 0)]) panel0) =
     [0xF8, 0x00, 0x07, 0xE0] \<and>
   pixel_stream (emitted (display_frame_rgb565 [(0xFF, 0, 0), (0, 0xFF, 0)]) player0) =
     [0xF8, 0x00, 0x07, 0xE0] \<and>
   data_bytes (emitted (display_image [(0xFF, 0, 0), (0, 0xFF, 0)]) panel0) =
     [0, 0, 1, 63, 0, 0, 0, 239, 0xF8, 0x00, 0x07, 0xE0] \<and>
   data_bytes (emitted (display_frame_rgb565 [(0xFF, 0, 0), (0, 0xFF, 0)]) player0) =
     [0, 0, 1, 63, 0, 0, 0, 239, 0xF8, 0x00, 0x07, 0xE0] \<and>
   commands_of (emitted (display_frame_rgb565 [(0xFF, 0, 0), (0, 0xFF, 0)]) player0) =
     [0x2A, 0x2B, 0x2C]"
proof -
  have b: "map uint (pixel_bytes_v4 [(0xFF, 0, 0), (0, 0xFF, 0)]) = [0xF8, 0x00, 0x07, 0xE0]"
    by (simp add: pixel_bytes_v4_be tobytes_be_def rgb565_v4_def)
  have d: "data_bytes (emitted (display_image [(0xFF, 0, 0), (0, 0xFF, 0)]) panel0) =
     [0, 0, 1, 63, 0, 0, 0, 239, 0xF8, 0x00, 0x07, 0xE0]"
    by (subst emitted_display_image)
      (simp_all add: panel0_def data_bytes_window clip_def hi_lo_def b)
  have c: "commands_of (emitted (display_image [(0xFF, 0, 0), (0, 0xFF, 0)]) panel0) =
     [0x2A, 0x2B, 0x2C]"
    by (subst emitted_display_image) (simp_all add: panel0_def commands_of_window)
  have p: "faults panel0 = []" "self_spi panel0" "self_dc_request panel0" "faults player0 = []"
    "spi player0" "self_width panel0 = WIDTH" "self_height panel0 = HEIGHT"
    by (simp_all add: panel0_def player0_def WIDTH_def HEIGHT_def)
  show ?thesis
    using rgb565_paths_agree [where pixels = "[(0xFF, 0, 0), (0, 0xFF, 0)]" and self = panel0
        and player = player0 and r = 0 and g = 0 and b = 0] p b c d
    by simp
qed

end
